theory Spec2Isabelle
  imports Main
begin

section \<open>Python values\<close>

text \<open>
  The program works on the trees that \<^verbatim>\<open>json.load\<close> returns and on dictionaries it
  builds itself. A dictionary is an association list in insertion order, read with
  \<open>map_of\<close>; its keys are strings, as in every JSON object. A string is a list of
  characters, one per code point. A float is kept as mantissa and exponent, with the two
  infinities and NaN that \<^verbatim>\<open>json.load\<close> accepts; only its truth value is ever used.
  \<open>PObj\<close> stands for any other object, named by a string: the program stores a
  \<^verbatim>\<open>tzinfo\<close> object in the items it displays. Such an object is true, has no
  \<^verbatim>\<open>get\<close>, no length and cannot be iterated.
\<close>

datatype pyfloat = FloatVal int int | FloatInf bool | FloatNaN

datatype pyval =
    PNone
  | PBool bool
  | PInt int
  | PFloat pyfloat
  | PStr string
  | PList "pyval list"
  | PDict "(string \<times> pyval) list"
  | PObj string

text \<open>
  The exceptions that the modelled code can raise or receive from a collaborator. All but
  \<open>KeyboardInterrupt\<close> are subclasses of \<^verbatim>\<open>Exception\<close>.
\<close>

datatype py_exception =
    AttributeError
  | TypeError
  | KeyError
  | IndexError
  | ZeroDivisionError
  | RuntimeError pyval
  | OtherError string
  | KeyboardInterrupt

fun is_Exception :: "py_exception \<Rightarrow> bool" where
  "is_Exception KeyboardInterrupt = False"
| "is_Exception _ = True"

text \<open>Truth value testing, as \<^verbatim>\<open>if x\<close>, \<^verbatim>\<open>not x\<close> and \<^verbatim>\<open>x or y\<close> do it.\<close>

fun float_nonzero :: "pyfloat \<Rightarrow> bool" where
  "float_nonzero (FloatVal m e) = (m \<noteq> 0)"
| "float_nonzero (FloatInf s) = True"
| "float_nonzero FloatNaN = True"

fun truthy :: "pyval \<Rightarrow> bool" where
  "truthy PNone = False"
| "truthy (PBool b) = b"
| "truthy (PInt i) = (i \<noteq> 0)"
| "truthy (PFloat f) = float_nonzero f"
| "truthy (PStr s) = (s \<noteq> [])"
| "truthy (PList xs) = (xs \<noteq> [])"
| "truthy (PDict kvs) = (kvs \<noteq> [])"
| "truthy (PObj n) = True"

definition py_or :: "pyval \<Rightarrow> pyval \<Rightarrow> pyval" where
  "py_or a b = (if truthy a then a else b)"

text \<open>\<^verbatim>\<open>d.get(k)\<close> and \<^verbatim>\<open>d.get(k, default)\<close> on a dictionary.\<close>

definition dict_get :: "(string \<times> pyval) list \<Rightarrow> string \<Rightarrow> pyval" where
  "dict_get kvs k = (case map_of kvs k of None \<Rightarrow> PNone | Some v \<Rightarrow> v)"

definition dict_get_default :: "(string \<times> pyval) list \<Rightarrow> string \<Rightarrow> pyval \<Rightarrow> pyval" where
  "dict_get_default kvs k d = (case map_of kvs k of None \<Rightarrow> d | Some v \<Rightarrow> v)"

text \<open>
  \<^verbatim>\<open>for x in v\<close>: a list gives its elements, a string its characters, a dictionary its
  keys; nothing else is iterable.
\<close>

fun py_iter :: "pyval \<Rightarrow> py_exception + pyval list" where
  "py_iter (PList xs) = Inr xs"
| "py_iter (PStr s) = Inr (map (\<lambda>c. PStr [c]) s)"
| "py_iter (PDict kvs) = Inr (map PStr (remdups (map fst kvs)))"
| "py_iter _ = Inl TypeError"

text \<open>\<^verbatim>\<open>len(v)\<close>.\<close>

fun py_len :: "pyval \<Rightarrow> py_exception + nat" where
  "py_len (PList xs) = Inr (length xs)"
| "py_len (PStr s) = Inr (length s)"
| "py_len (PDict kvs) = Inr (length (remdups (map fst kvs)))"
| "py_len _ = Inl TypeError"

text \<open>
  \<^verbatim>\<open>v[0]\<close>: the first element of a list, the first character of a string; a dictionary
  with string keys has no key \<open>0\<close>; other values are not subscriptable.
\<close>

fun py_first :: "pyval \<Rightarrow> py_exception + pyval" where
  "py_first (PList []) = Inl IndexError"
| "py_first (PList (x # xs)) = Inr x"
| "py_first (PStr []) = Inl IndexError"
| "py_first (PStr (c # cs)) = Inr (PStr [c])"
| "py_first (PDict kvs) = Inl KeyError"
| "py_first _ = Inl TypeError"

fun is_list :: "pyval \<Rightarrow> bool" where
  "is_list (PList xs) = True"
| "is_list _ = False"

text \<open>
  Formatting inside an f-string: a string stands for itself. What \<^verbatim>\<open>str()\<close> prints for
  any other value belongs to the Python runtime, not to this program, and is the
  parameter \<open>str_of\<close> of every function that formats.
\<close>

definition py_format :: "(pyval \<Rightarrow> string) \<Rightarrow> pyval \<Rightarrow> string" where
  "py_format str_of v = (case v of PStr s \<Rightarrow> s | _ \<Rightarrow> str_of v)"

section \<open>Normalizer\<close>

text \<open>
  The loop over \<^verbatim>\<open>time_blocks\<close> (source lines 71 to 79), with \<^verbatim>\<open>times\<close> as the
  accumulator \<open>tms\<close>. A dictionary contributes when its time value is truthy, a string always,
  anything else never.
\<close>

fun time_blocks_loop :: "(pyval \<Rightarrow> string) \<Rightarrow> pyval list \<Rightarrow> pyval list \<Rightarrow> pyval list" where
  "time_blocks_loop str_of [] tms = tms"
| "time_blocks_loop str_of (tb # tbs) tms =
     time_blocks_loop str_of tbs
       (case tb of
          PDict kvs \<Rightarrow>
            (let t_val = py_or (py_or (py_or (dict_get kvs ''time'') (dict_get kvs ''start_time''))
                                 (dict_get kvs ''start'')) (PStr '''');
                 t_type = py_or (py_or (dict_get kvs ''type'') (dict_get kvs ''format''))
                                 (dict_get kvs ''ticket_type'')
             in if truthy t_val
                then tms @ [if truthy t_type
                              then PStr (py_format str_of t_val @ '' ('' @ py_format str_of t_type @ '')'')
                              else t_val]
                else tms)
        | PStr s \<Rightarrow> tms @ [tb]
        | _ \<Rightarrow> tms)"

text \<open>
  The two fallback chains of a movie (source lines 68 and 70); \<open>m\<close> is the movie's
  dictionary.
\<close>

definition movie_title :: "(string \<times> pyval) list \<Rightarrow> pyval" where
  "movie_title m =
     py_or (py_or (py_or (dict_get m ''title'') (dict_get m ''name''))
                  (dict_get m ''film_name'')) (PStr ''(title unknown)'')"

definition movie_time_blocks :: "(string \<times> pyval) list \<Rightarrow> pyval" where
  "movie_time_blocks m =
     py_or (py_or (py_or (dict_get m ''showtimes'') (dict_get m ''times''))
                  (dict_get m ''showing'')) (PList [])"

text \<open>
  The body of the loop over \<^verbatim>\<open>movies\<close> (source lines 68 to 84): one movie row.
  \<^verbatim>\<open>movie.get\<close> raises \<^verbatim>\<open>AttributeError\<close> when the movie is not a dictionary.
\<close>

definition normalize_movie :: "(pyval \<Rightarrow> string) \<Rightarrow> pyval \<Rightarrow> py_exception + pyval" where
  "normalize_movie str_of movie =
     (case movie of
        PDict m \<Rightarrow>
          (let title = movie_title m;
               time_blocks = movie_time_blocks m
           in case py_iter time_blocks of
                Inl x \<Rightarrow> Inl x
              | Inr tbs \<Rightarrow>
                  Inr (PDict [(''title'', title),
                              (''times'', PList (take 8 (time_blocks_loop str_of tbs [])))]))
      | _ \<Rightarrow> Inl AttributeError)"

fun movies_loop :: "(pyval \<Rightarrow> string) \<Rightarrow> pyval list \<Rightarrow> pyval list \<Rightarrow> py_exception + pyval list" where
  "movies_loop str_of [] movie_rows = Inr movie_rows"
| "movies_loop str_of (movie # movies) movie_rows =
     (case normalize_movie str_of movie of
        Inl x \<Rightarrow> Inl x
      | Inr row \<Rightarrow> movies_loop str_of movies (movie_rows @ [row]))"

text \<open>
  \<^verbatim>\<open>if isinstance(movies, list) and len(movies) > 0 and isinstance(movies[0], list):
  movies = movies[0]\<close> (source lines 63 and 64).
\<close>

definition first_day :: "pyval \<Rightarrow> pyval" where
  "first_day movies =
     (case movies of
        PList (m # ms) \<Rightarrow> (if is_list m then m else movies)
      | _ \<Rightarrow> movies)"

text \<open>
  The three fallback chains of a theater entry (source lines 58 to 60); \<open>e\<close> is the
  entry's dictionary.
\<close>

definition entry_theater_name :: "(string \<times> pyval) list \<Rightarrow> pyval" where
  "entry_theater_name e =
     py_or (py_or (dict_get e ''theater_name'') (dict_get e ''name'')) (PStr ''Unknown Theater'')"

definition entry_address :: "(string \<times> pyval) list \<Rightarrow> pyval" where
  "entry_address e =
     py_or (py_or (py_or (dict_get e ''address'') (dict_get e ''address_line''))
                  (dict_get e ''full_address'')) (PStr '''')"

definition entry_movies :: "(string \<times> pyval) list \<Rightarrow> pyval" where
  "entry_movies e = py_or (py_or (dict_get e ''movies'') (dict_get e ''showing'')) (PList [])"

text \<open>
  The body of the loop over \<^verbatim>\<open>theaters\<close> (source lines 58 to 90): one theater.
  \<^verbatim>\<open>entry.get\<close> raises \<^verbatim>\<open>AttributeError\<close> when the entry is not a dictionary.
\<close>

definition normalize_entry :: "(pyval \<Rightarrow> string) \<Rightarrow> pyval \<Rightarrow> py_exception + pyval" where
  "normalize_entry str_of entry =
     (case entry of
        PDict e \<Rightarrow>
          (let theater_name = entry_theater_name e;
               address = entry_address e;
               movies = first_day (entry_movies e)
           in case py_iter movies of
                Inl x \<Rightarrow> Inl x
              | Inr ms \<Rightarrow>
                  (case movies_loop str_of ms [] of
                     Inl x \<Rightarrow> Inl x
                   | Inr movie_rows \<Rightarrow>
                       Inr (PDict [(''theater'', theater_name),
                                   (''address'', address),
                                   (''movies'', PList movie_rows)])))
      | _ \<Rightarrow> Inl AttributeError)"

fun theaters_loop :: "(pyval \<Rightarrow> string) \<Rightarrow> pyval list \<Rightarrow> pyval list \<Rightarrow> py_exception + pyval list" where
  "theaters_loop str_of [] normalized = Inr normalized"
| "theaters_loop str_of (entry # theaters) normalized =
     (case normalize_entry str_of entry of
        Inl x \<Rightarrow> Inl x
      | Inr t \<Rightarrow> theaters_loop str_of theaters (normalized @ [t]))"

text \<open>
  \<^verbatim>\<open>if theaters and len(theaters) > 0: theaters = [theaters[0]]\<close> (source lines 54
  and 55).
\<close>

definition today_only :: "pyval \<Rightarrow> py_exception + pyval" where
  "today_only theaters =
     (if truthy theaters
      then (case py_len theaters of
              Inl x \<Rightarrow> Inl x
            | Inr n \<Rightarrow>
                if n > 0
                then (case py_first theaters of Inl x \<Rightarrow> Inl x | Inr t \<Rightarrow> Inr (PList [t]))
                else Inr theaters)
      else Inr theaters)"

definition normalize_showtimes :: "(pyval \<Rightarrow> string) \<Rightarrow> pyval \<Rightarrow> py_exception + pyval list" where
  "normalize_showtimes str_of payload =
     (case payload of
        PDict p \<Rightarrow>
          (case today_only (py_or (dict_get p ''showtimes'') (PList [])) of
             Inl x \<Rightarrow> Inl x
           | Inr theaters \<Rightarrow>
               (case py_iter theaters of
                  Inl x \<Rightarrow> Inl x
                | Inr ths \<Rightarrow> theaters_loop str_of ths []))
      | _ \<Rightarrow> Inl AttributeError)"

subsection \<open>The normalizer as the specification words it\<close>

text \<open>
  What one time entry contributes, following the specification: a structured entry with
  a time value and a label gives \<open>time (label)\<close>, one with a time value and no label the
  bare time, one with no time value nothing; a plain string is passed through; anything
  else contributes nothing.
\<close>

definition display_time :: "(pyval \<Rightarrow> string) \<Rightarrow> pyval \<Rightarrow> pyval option" where
  "display_time str_of tb =
     (case tb of
        PDict kvs \<Rightarrow>
          (let time_value = py_or (py_or (py_or (dict_get kvs ''time'') (dict_get kvs ''start_time''))
                                         (dict_get kvs ''start'')) (PStr '''');
               label = py_or (py_or (dict_get kvs ''type'') (dict_get kvs ''format''))
                             (dict_get kvs ''ticket_type'')
           in if truthy time_value
              then (if truthy label
                    then Some (PStr (py_format str_of time_value @ '' ('' @ py_format str_of label @ '')''))
                    else Some time_value)
              else None)
      | PStr s \<Rightarrow> Some (PStr s)
      | _ \<Rightarrow> None)"

text \<open>
  A fallback chain as the specification words it: an ordered list of keys tried one after
  the other on a dictionary, returning the first value that is present and true, and the
  default when every key is absent or holds a false value.
\<close>

fun fallback :: "(string \<times> pyval) list \<Rightarrow> string list \<Rightarrow> pyval \<Rightarrow> pyval" where
  "fallback d [] dflt = dflt"
| "fallback d (k # ks) dflt =
     (case map_of d k of
        None \<Rightarrow> fallback d ks dflt
      | Some v \<Rightarrow> (if truthy v then v else fallback d ks dflt))"

text \<open>
  The payloads that have the expected kinds of containers: the payload is an object; its
  \<open>showtimes\<close>, when truthy, is a list whose first element is an object; the movie list
  of that object, after the choice of the first day, is a list of objects; the time list
  of each movie is a list, a string or an object. Scalar fields are not constrained.
\<close>

fun is_iterable :: "pyval \<Rightarrow> bool" where
  "is_iterable (PList xs) = True"
| "is_iterable (PStr s) = True"
| "is_iterable (PDict kvs) = True"
| "is_iterable _ = False"

definition movie_ok :: "pyval \<Rightarrow> bool" where
  "movie_ok movie = (case movie of PDict m \<Rightarrow> is_iterable (movie_time_blocks m) | _ \<Rightarrow> False)"

definition entry_ok :: "pyval \<Rightarrow> bool" where
  "entry_ok entry =
     (case entry of
        PDict e \<Rightarrow>
          (case first_day (entry_movies e) of PList ms \<Rightarrow> list_all movie_ok ms | _ \<Rightarrow> False)
      | _ \<Rightarrow> False)"

definition payload_ok :: "pyval \<Rightarrow> bool" where
  "payload_ok payload =
     (case payload of
        PDict p \<Rightarrow>
          (if truthy (dict_get p ''showtimes'')
           then (case dict_get p ''showtimes'' of
                   PList (entry # later) \<Rightarrow> entry_ok entry
                 | _ \<Rightarrow> False)
           else True)
      | _ \<Rightarrow> False)"

text \<open>
  A formatter for the examples: Python's \<^verbatim>\<open>str()\<close> on strings, \<^verbatim>\<open>None\<close> and the
  booleans. The examples format nothing else.
\<close>

definition example_str :: "pyval \<Rightarrow> string" where
  "example_str v =
     (case v of
        PStr s \<Rightarrow> s
      | PNone \<Rightarrow> ''None''
      | PBool b \<Rightarrow> (if b then ''True'' else ''False'')
      | _ \<Rightarrow> [])"

section \<open>Flattener\<close>

text \<open>
  A displayed item is the dictionary that the source builds, with the keys in the
  source's order.
\<close>

definition movie_item :: "pyval \<Rightarrow> pyval \<Rightarrow> pyval \<Rightarrow> pyval \<Rightarrow> (string \<times> pyval) list \<Rightarrow> pyval \<Rightarrow> pyval \<Rightarrow> pyval" where
  "movie_item theater_label location_label theater_name address movie now_str tz =
     PDict [(''theater_label'', theater_label),
            (''location_label'', location_label),
            (''theater_name'', theater_name),
            (''address'', address),
            (''title'', py_or (dict_get movie ''title'') (PStr ''(title unknown)'')),
            (''times'', py_or (dict_get movie ''times'') (PList [])),
            (''now_str'', now_str),
            (''tz'', tz)]"

subsection \<open>\<^verbatim>\<open>flatten_movies\<close> (source lines 151 to 171)\<close>

text \<open>The three nested loops share the one accumulator \<^verbatim>\<open>movies\<close>.\<close>

fun flatten_movie_loop ::
  "pyval \<Rightarrow> pyval \<Rightarrow> pyval \<Rightarrow> pyval \<Rightarrow> pyval \<Rightarrow> pyval \<Rightarrow> pyval list \<Rightarrow> pyval list \<Rightarrow> py_exception + pyval list" where
  "flatten_movie_loop theater_label location_label theater_name address now_str tz [] movies =
     Inr movies"
| "flatten_movie_loop theater_label location_label theater_name address now_str tz (movie # rest) movies =
     (case movie of
        PDict m \<Rightarrow>
          flatten_movie_loop theater_label location_label theater_name address now_str tz rest
            (movies @ [movie_item theater_label location_label theater_name address m now_str tz])
      | _ \<Rightarrow> Inl AttributeError)"

fun flatten_theater_loop ::
  "pyval \<Rightarrow> pyval \<Rightarrow> pyval \<Rightarrow> pyval \<Rightarrow> pyval list \<Rightarrow> pyval list \<Rightarrow> py_exception + pyval list" where
  "flatten_theater_loop theater_label location_label now_str tz [] movies = Inr movies"
| "flatten_theater_loop theater_label location_label now_str tz (theater # rest) movies =
     (let theater_name = py_or theater_label (PStr ''Unknown Theater'')
      in case theater of
           PDict t \<Rightarrow>
             (let address = py_or (dict_get t ''address'') (PStr '''')
              in case py_iter (dict_get_default t ''movies'' (PList [])) of
                   Inl x \<Rightarrow> Inl x
                 | Inr ms \<Rightarrow>
                     (case flatten_movie_loop theater_label location_label theater_name address
                             now_str tz ms movies of
                        Inl x \<Rightarrow> Inl x
                      | Inr movies' \<Rightarrow>
                          flatten_theater_loop theater_label location_label now_str tz rest movies'))
         | _ \<Rightarrow> Inl AttributeError)"

fun flatten_entry_loop :: "pyval \<Rightarrow> pyval \<Rightarrow> pyval list \<Rightarrow> pyval list \<Rightarrow> py_exception + pyval list" where
  "flatten_entry_loop now_str tz [] movies = Inr movies"
| "flatten_entry_loop now_str tz (entry # rest) movies =
     (case entry of
        PDict e \<Rightarrow>
          (let theater_label = dict_get_default e ''theater_label'' (PStr '''');
               location_label = dict_get_default e ''location_label'' (PStr '''')
           in case py_iter (dict_get_default e ''showtimes'' (PList [])) of
                Inl x \<Rightarrow> Inl x
              | Inr ths \<Rightarrow>
                  (case flatten_theater_loop theater_label location_label now_str tz ths movies of
                     Inl x \<Rightarrow> Inl x
                   | Inr movies' \<Rightarrow> flatten_entry_loop now_str tz rest movies'))
      | _ \<Rightarrow> Inl AttributeError)"

text \<open>The parameter \<open>tz\<close> is \<open>PNone\<close> when the caller leaves it out.\<close>

definition flatten_movies :: "pyval \<Rightarrow> pyval \<Rightarrow> pyval \<Rightarrow> py_exception + pyval list" where
  "flatten_movies entries now_str tz =
     (case py_iter entries of
        Inl x \<Rightarrow> Inl x
      | Inr es \<Rightarrow> flatten_entry_loop now_str tz es [])"

subsection \<open>\<^verbatim>\<open>group_movies_by_theater\<close> (source lines 264 to 287)\<close>

text \<open>
  The two inner loops fill \<^verbatim>\<open>theater_movies\<close>, which starts empty for every entry; the
  outer loop appends it to \<^verbatim>\<open>theater_groups\<close> when it is not empty. \<open>tz\<close> is the
  variable of the enclosing \<^verbatim>\<open>run_display\<close>.
\<close>

fun group_movie_loop ::
  "pyval \<Rightarrow> pyval \<Rightarrow> pyval \<Rightarrow> pyval \<Rightarrow> pyval \<Rightarrow> pyval \<Rightarrow> pyval list \<Rightarrow> pyval list \<Rightarrow> py_exception + pyval list" where
  "group_movie_loop tz theater_label location_label theater_name address now_str [] theater_movies =
     Inr theater_movies"
| "group_movie_loop tz theater_label location_label theater_name address now_str (movie # rest) theater_movies =
     (case movie of
        PDict m \<Rightarrow>
          group_movie_loop tz theater_label location_label theater_name address now_str rest
            (theater_movies @ [movie_item theater_label location_label theater_name address m now_str tz])
      | _ \<Rightarrow> Inl AttributeError)"

fun group_theater_loop ::
  "pyval \<Rightarrow> pyval \<Rightarrow> pyval \<Rightarrow> pyval \<Rightarrow> pyval list \<Rightarrow> pyval list \<Rightarrow> py_exception + pyval list" where
  "group_theater_loop tz theater_label location_label now_str [] theater_movies = Inr theater_movies"
| "group_theater_loop tz theater_label location_label now_str (theater # rest) theater_movies =
     (let theater_name = py_or theater_label (PStr ''Unknown Theater'')
      in case theater of
           PDict t \<Rightarrow>
             (let address = py_or (dict_get t ''address'') (PStr '''')
              in case py_iter (dict_get_default t ''movies'' (PList [])) of
                   Inl x \<Rightarrow> Inl x
                 | Inr ms \<Rightarrow>
                     (case group_movie_loop tz theater_label location_label theater_name address
                             now_str ms theater_movies of
                        Inl x \<Rightarrow> Inl x
                      | Inr theater_movies' \<Rightarrow>
                          group_theater_loop tz theater_label location_label now_str rest
                            theater_movies'))
         | _ \<Rightarrow> Inl AttributeError)"

text \<open>The list \<^verbatim>\<open>theater_movies\<close> of one entry (source lines 268 to 284).\<close>

definition theater_movies_of :: "pyval \<Rightarrow> pyval \<Rightarrow> pyval \<Rightarrow> py_exception + pyval list" where
  "theater_movies_of tz entry now_str =
     (case entry of
        PDict e \<Rightarrow>
          (let theater_label = dict_get_default e ''theater_label'' (PStr '''');
               location_label = dict_get_default e ''location_label'' (PStr '''')
           in case py_iter (dict_get_default e ''showtimes'' (PList [])) of
                Inl x \<Rightarrow> Inl x
              | Inr ths \<Rightarrow> group_theater_loop tz theater_label location_label now_str ths [])
      | _ \<Rightarrow> Inl AttributeError)"

fun group_entry_loop ::
  "pyval \<Rightarrow> pyval \<Rightarrow> pyval list \<Rightarrow> pyval list list \<Rightarrow> py_exception + pyval list list" where
  "group_entry_loop tz now_str [] theater_groups = Inr theater_groups"
| "group_entry_loop tz now_str (entry # rest) theater_groups =
     (case theater_movies_of tz entry now_str of
        Inl x \<Rightarrow> Inl x
      | Inr theater_movies \<Rightarrow>
          group_entry_loop tz now_str rest
            (if theater_movies \<noteq> [] then theater_groups @ [theater_movies] else theater_groups))"

definition group_movies_by_theater :: "pyval \<Rightarrow> pyval \<Rightarrow> pyval \<Rightarrow> py_exception + pyval list list" where
  "group_movies_by_theater tz entries now_str =
     (case py_iter entries of
        Inl x \<Rightarrow> Inl x
      | Inr es \<Rightarrow> group_entry_loop tz now_str es [])"

section \<open>Cache Store\<close>

text \<open>
  The disk says, for a path, what \<^verbatim>\<open>open\<close> and \<^verbatim>\<open>json.load\<close> make of it when
  reading: no such file, a file that cannot be read or parsed, or the parsed document;
  and what happens when writing to it: the write succeeds, \<^verbatim>\<open>open(path, "w")\<close>
  raises and leaves the file as it is, or \<^verbatim>\<open>json.dump\<close> raises after \<^verbatim>\<open>open\<close> has
  truncated the file, which leaves a file that cannot be parsed.
\<close>

datatype disk_file = Absent | Unreadable | Content pyval

datatype write_result = WriteOk | OpenRaises py_exception | DumpRaises py_exception

record disk =
  stored :: "string \<Rightarrow> disk_file"
  writing :: "string \<Rightarrow> write_result"

text \<open>
  \<^verbatim>\<open>load_cached\<close> (source lines 204 to 213) returns \<^verbatim>\<open>None\<close> for an empty path, for
  a missing file and for any other failure; otherwise whatever \<^verbatim>\<open>json.load\<close> returns,
  a dictionary or not.
\<close>

definition load_cached :: "disk \<Rightarrow> string \<Rightarrow> pyval" where
  "load_cached d path =
     (if path = [] then PNone
      else (case stored d path of
              Absent \<Rightarrow> PNone
            | Unreadable \<Rightarrow> PNone
            | Content doc \<Rightarrow> doc))"

text \<open>
  \<^verbatim>\<open>save_cached\<close> (source lines 216 to 221) does nothing for an empty path and has no
  \<^verbatim>\<open>try\<close>: the result is the exception raised, if any, and the disk after the call.
\<close>

definition save_cached :: "disk \<Rightarrow> string \<Rightarrow> string \<Rightarrow> pyval list \<Rightarrow> py_exception option \<times> disk" where
  "save_cached d path date_str entries =
     (if path = [] then (None, d)
      else (case writing d path of
              WriteOk \<Rightarrow>
                (None, d\<lparr>stored := (stored d)
                           (path := Content (PDict [(''date'', PStr date_str),
                                                    (''entries'', PList entries)]))\<rparr>)
            | OpenRaises x \<Rightarrow> (Some x, d)
            | DumpRaises x \<Rightarrow> (Some x, d\<lparr>stored := (stored d) (path := Unreadable)\<rparr>)))"

section \<open>Fetch Orchestrator\<close>

text \<open>
  What the program does to the outside is kept as a list of events, in order: a call of
  \<^verbatim>\<open>fetch_showtimes\<close> with its five arguments, a printed message, a call of
  \<^verbatim>\<open>time.sleep\<close> with its argument, a call of \<^verbatim>\<open>format_single_movie_display\<close> with
  the item.
\<close>

datatype message =
    SkippingMalformed
  | NoMoviesFound
  | ErrorRefreshing py_exception
  | NoMoviesAfterRefresh
  | ErrorDisplaying py_exception

datatype event =
    Fetch pyval pyval pyval pyval pyval
  | Print message
  | Sleep pyval
  | Render pyval

text \<open>
  \<^verbatim>\<open>fetch_showtimes\<close> is the HTTP collaborator: a function of its arguments
  \<open>api_key\<close>, \<open>theater\<close>, \<open>location\<close>, \<open>hl\<close>, \<open>gl\<close> that returns the parsed response or
  raises.
\<close>

type_synonym fetcher = "pyval \<Rightarrow> pyval \<Rightarrow> pyval \<Rightarrow> pyval \<Rightarrow> pyval \<Rightarrow> py_exception + pyval"

fun fetch_all_loop ::
  "(pyval \<Rightarrow> string) \<Rightarrow> fetcher \<Rightarrow> pyval \<Rightarrow> pyval \<Rightarrow> pyval \<Rightarrow> pyval list \<Rightarrow> pyval list \<Rightarrow> event list
   \<Rightarrow> (py_exception + pyval list) \<times> event list" where
  "fetch_all_loop str_of fetch_showtimes api_key hl gl [] entries evs = (Inr entries, evs)"
| "fetch_all_loop str_of fetch_showtimes api_key hl gl (entry # rest) entries evs =
     (case entry of
        PDict c \<Rightarrow>
          (let theater_name = py_or (py_or (dict_get c ''name'') (dict_get c ''theater''))
                                    (dict_get c ''query'');
               location = py_or (dict_get c ''location'') (PStr '''')
           in if \<not> truthy theater_name \<or> \<not> truthy location
              then fetch_all_loop str_of fetch_showtimes api_key hl gl rest entries
                     (evs @ [Print SkippingMalformed])
              else (case fetch_showtimes api_key theater_name location hl gl of
                      Inl x \<Rightarrow> (Inl x, evs @ [Fetch api_key theater_name location hl gl])
                    | Inr raw \<Rightarrow>
                        (case raw of
                           PDict r \<Rightarrow>
                             (if truthy (dict_get r ''error'')
                              then (Inl (RuntimeError (dict_get r ''error'')),
                                    evs @ [Fetch api_key theater_name location hl gl])
                              else (case normalize_showtimes str_of raw of
                                      Inl x \<Rightarrow> (Inl x, evs @ [Fetch api_key theater_name location hl gl])
                                    | Inr normalized \<Rightarrow>
                                        fetch_all_loop str_of fetch_showtimes api_key hl gl rest
                                          (entries @ [PDict [(''theater_label'', theater_name),
                                                             (''location_label'', location),
                                                             (''showtimes'', PList normalized)]])
                                          (evs @ [Fetch api_key theater_name location hl gl])))
                         | _ \<Rightarrow> (Inl AttributeError, evs @ [Fetch api_key theater_name location hl gl]))))
      | _ \<Rightarrow> (Inl AttributeError, evs))"

definition fetch_all ::
  "(pyval \<Rightarrow> string) \<Rightarrow> fetcher \<Rightarrow> pyval \<Rightarrow> pyval \<Rightarrow> pyval \<Rightarrow> pyval
   \<Rightarrow> (py_exception + pyval list) \<times> event list" where
  "fetch_all str_of fetch_showtimes api_key hl gl theaters =
     (case py_iter theaters of
        Inl x \<Rightarrow> (Inl x, [])
      | Inr ts \<Rightarrow> fetch_all_loop str_of fetch_showtimes api_key hl gl ts [] [])"

section \<open>Rotation Engine\<close>

subsection \<open>The cursor (source lines 316 to 330)\<close>

text \<open>
  \<^verbatim>\<open>%\<close> by zero raises; with a positive modulus Python's \<^verbatim>\<open>%\<close> is \<open>mod\<close> on \<open>int\<close>,
  so both normalized indices are in range. The result is the two normalized indices and
  the item.
\<close>

definition current_item :: "'a list list \<Rightarrow> int \<Rightarrow> int \<Rightarrow> py_exception + int \<times> int \<times> 'a" where
  "current_item theater_groups theater_idx movie_idx =
     (if length theater_groups = 0 then Inl ZeroDivisionError
      else (let theater_idx_normalized = theater_idx mod int (length theater_groups);
                current_theater = theater_groups ! nat theater_idx_normalized
            in if length current_theater = 0 then Inl ZeroDivisionError
               else (let movie_idx_normalized = movie_idx mod int (length current_theater)
                     in Inr (theater_idx_normalized, movie_idx_normalized,
                             current_theater ! nat movie_idx_normalized))))"

text \<open>
  \<^verbatim>\<open>movie_idx += 1\<close>, then the move to the next theater (source lines 325 to 330). The
  result is the pair \<open>(theater_idx, movie_idx)\<close>.
\<close>

definition advance :: "'a list \<Rightarrow> int \<Rightarrow> int \<Rightarrow> int \<times> int" where
  "advance current_theater theater_idx movie_idx =
     (if movie_idx + 1 \<ge> int (length current_theater)
      then (theater_idx + 1, 0)
      else (theater_idx, movie_idx + 1))"

subsection \<open>\<^verbatim>\<open>run_display\<close> (source lines 245 to 334)\<close>

text \<open>The variables that \<^verbatim>\<open>run_display\<close> sets once, from the configuration.\<close>

record config =
  api_key :: pyval
  hl :: pyval
  gl :: pyval
  theaters :: pyval
  cycle_delay :: pyval
  cache_path :: string
  tz :: pyval

text \<open>
  Source lines 260 to 262: fetch, save under today's date, return. An exception of
  \<^verbatim>\<open>fetch_all\<close> or of \<^verbatim>\<open>save_cached\<close> leaves the function. The result is the
  exception or the returned pair, with the disk after the call; and the events.
\<close>

definition fetch_and_save ::
  "(pyval \<Rightarrow> string) \<Rightarrow> fetcher \<Rightarrow> config \<Rightarrow> disk \<Rightarrow> string
   \<Rightarrow> ((py_exception + pyval \<times> pyval) \<times> disk) \<times> event list" where
  "fetch_and_save str_of fetch_showtimes cfg d today_str =
     (case fetch_all str_of fetch_showtimes (api_key cfg) (hl cfg) (gl cfg) (theaters cfg) of
        (Inl x, evs) \<Rightarrow> ((Inl x, d), evs)
      | (Inr fresh, evs) \<Rightarrow>
          (case save_cached d (cache_path cfg) today_str fresh of
             (Some x, d') \<Rightarrow> ((Inl x, d'), evs)
           | (None, d') \<Rightarrow> ((Inr (PList fresh, PStr today_str), d'), evs)))"

text \<open>
  \<^verbatim>\<open>load_entries_for_today\<close> (source lines 255 to 262). \<open>today_str\<close> is what the clock
  gives at line 256. \<^verbatim>\<open>cached_local.get\<close> raises when the cached value is true but
  not a dictionary.
\<close>

definition load_entries_for_today ::
  "(pyval \<Rightarrow> string) \<Rightarrow> fetcher \<Rightarrow> config \<Rightarrow> disk \<Rightarrow> string
   \<Rightarrow> ((py_exception + pyval \<times> pyval) \<times> disk) \<times> event list" where
  "load_entries_for_today str_of fetch_showtimes cfg d today_str =
     (let cached_local = load_cached d (cache_path cfg)
      in if truthy cached_local
         then (case cached_local of
                 PDict c \<Rightarrow>
                   (if dict_get c ''date'' = PStr today_str
                    then ((Inr (py_or (dict_get c ''entries'') (PList []),
                                dict_get_default c ''date'' (PStr today_str)), d), [])
                    else fetch_and_save str_of fetch_showtimes cfg d today_str)
               | _ \<Rightarrow> ((Inl AttributeError, d), []))
         else fetch_and_save str_of fetch_showtimes cfg d today_str)"

text \<open>The variables of the loop, with the disk.\<close>

record run_state =
  files :: disk
  entries :: pyval
  cache_date :: pyval
  theater_groups :: "pyval list list"
  theater_idx :: int
  movie_idx :: int

text \<open>
  What the outside does during one iteration: the date the clock gives at line 299 and at
  line 256, the HTTP collaborator, whether rendering the item raises and what, whether
  \<^verbatim>\<open>time.sleep(cycle_delay)\<close> raises and what, and whether \<^verbatim>\<open>time.sleep(5)\<close> is
  interrupted.
\<close>

record env =
  now_date :: string
  reload_date :: string
  fetch_showtimes :: fetcher
  render_error :: "pyval \<Rightarrow> py_exception option"
  delay_error :: "py_exception option"
  backoff_interrupt :: bool

text \<open>
  The result of an iteration: the exception that leaves \<^verbatim>\<open>run_display\<close>, or the state
  at the next iteration; with the events.
\<close>

definition backoff :: "env \<Rightarrow> run_state \<Rightarrow> event list \<Rightarrow> (py_exception + run_state) \<times> event list" where
  "backoff w s evs =
     (if backoff_interrupt w then (Inl KeyboardInterrupt, evs @ [Sleep (PInt 5)])
      else (Inr s, evs @ [Sleep (PInt 5)]))"

text \<open>The two handlers \<^verbatim>\<open>except Exception as e\<close> (source lines 307 to 310, 331 to 333).\<close>

definition refresh_failed ::
  "env \<Rightarrow> run_state \<Rightarrow> py_exception \<Rightarrow> event list \<Rightarrow> (py_exception + run_state) \<times> event list" where
  "refresh_failed w s x evs =
     (if is_Exception x then backoff w s (evs @ [Print (ErrorRefreshing x)]) else (Inl x, evs))"

definition display_failed ::
  "env \<Rightarrow> run_state \<Rightarrow> py_exception \<Rightarrow> event list \<Rightarrow> (py_exception + run_state) \<times> event list" where
  "display_failed w s x evs =
     (if is_Exception x then backoff w s (evs @ [Print (ErrorDisplaying x)]) else (Inl x, evs))"

text \<open>Source lines 316 to 334; \<open>evs\<close> are the events of the iteration so far.\<close>

definition display_part ::
  "env \<Rightarrow> config \<Rightarrow> run_state \<Rightarrow> event list \<Rightarrow> (py_exception + run_state) \<times> event list" where
  "display_part w cfg s evs =
     (case current_item (theater_groups s) (theater_idx s) (movie_idx s) of
        Inl x \<Rightarrow> (Inl x, evs)
      | Inr (theater_idx_normalized, movie_idx_normalized, item) \<Rightarrow>
          (case render_error w item of
             Some x \<Rightarrow> display_failed w s x (evs @ [Render item])
           | None \<Rightarrow>
               (case delay_error w of
                  Some x \<Rightarrow> display_failed w s x (evs @ [Render item, Sleep (cycle_delay cfg)])
                | None \<Rightarrow>
                    (case advance (theater_groups s ! nat theater_idx_normalized)
                            (theater_idx s) (movie_idx s) of
                       (theater_idx', movie_idx') \<Rightarrow>
                         (Inr (s\<lparr>theater_idx := theater_idx', movie_idx := movie_idx'\<rparr>),
                          evs @ [Render item, Sleep (cycle_delay cfg)])))))"

text \<open>
  Source lines 302 to 314: the refresh, then the display when there is something to show.
  What the call of \<^verbatim>\<open>load_entries_for_today\<close> did to the disk stays done when it or
  the grouping raises.
\<close>

definition refresh_part ::
  "(pyval \<Rightarrow> string) \<Rightarrow> env \<Rightarrow> config \<Rightarrow> run_state \<Rightarrow> (py_exception + run_state) \<times> event list" where
  "refresh_part str_of w cfg s =
     (case load_entries_for_today str_of (fetch_showtimes w) cfg (files s) (reload_date w) of
        ((Inl x, files'), evs) \<Rightarrow> refresh_failed w (s\<lparr>files := files'\<rparr>) x evs
      | ((Inr (entries', cache_date'), files'), evs) \<Rightarrow>
          (let s1 = s\<lparr>files := files', entries := entries', cache_date := cache_date'\<rparr>
           in case group_movies_by_theater (tz cfg) entries' cache_date' of
                Inl x \<Rightarrow> refresh_failed w s1 x evs
              | Inr groups \<Rightarrow>
                  (let s2 = s1\<lparr>theater_groups := groups, theater_idx := 0, movie_idx := 0\<rparr>
                   in if groups = []
                      then backoff w s2 (evs @ [Print NoMoviesAfterRefresh])
                      else display_part w cfg s2 evs)))"

text \<open>
  One iteration of \<^verbatim>\<open>while True\<close> (source lines 297 to 334). The test of line 301 is
  outside every \<^verbatim>\<open>try\<close>: \<^verbatim>\<open>cached.get\<close> on a true value that is not a dictionary
  raises out of \<^verbatim>\<open>run_display\<close>.
\<close>

definition loop_iteration ::
  "(pyval \<Rightarrow> string) \<Rightarrow> env \<Rightarrow> config \<Rightarrow> run_state \<Rightarrow> (py_exception + run_state) \<times> event list" where
  "loop_iteration str_of w cfg s =
     (let current_date = now_date w;
          cached = load_cached (files s) (cache_path cfg)
      in if truthy cached
         then (case cached of
                 PDict c \<Rightarrow>
                   (if dict_get c ''date'' \<noteq> PStr current_date
                    then refresh_part str_of w cfg s
                    else display_part w cfg s [])
               | _ \<Rightarrow> (Inl AttributeError, []))
         else refresh_part str_of w cfg s)"

text \<open>
  The loop \<^verbatim>\<open>while True\<close> (source line 297) run for as many iterations as there are
  elements in \<open>ws\<close>, which says what the outside does during each: it stops at the first
  exception that leaves an iteration. The result is that exception, or the state after
  the last iteration; with all the events, in order.
\<close>

fun run_loop ::
  "(pyval \<Rightarrow> string) \<Rightarrow> env list \<Rightarrow> config \<Rightarrow> run_state \<Rightarrow> (py_exception + run_state) \<times> event list" where
  "run_loop str_of [] cfg s = (Inr s, [])"
| "run_loop str_of (w # ws) cfg s =
     (case loop_iteration str_of w cfg s of
        (Inl x, evs) \<Rightarrow> (Inl x, evs)
      | (Inr s', evs) \<Rightarrow>
          (case run_loop str_of ws cfg s' of
             (r, evs') \<Rightarrow> (r, evs @ evs')))"

text \<open>
  The events of showing the items of a list one after the other with nothing raised: each
  is rendered, then the cycle delay is slept.
\<close>

definition shown :: "config \<Rightarrow> pyval list \<Rightarrow> event list" where
  "shown cfg its = concat (map (\<lambda>item. [Render item, Sleep (cycle_delay cfg)]) its)"

section \<open>Reading items, and the examples\<close>

text \<open>
  \<^verbatim>\<open>item.get(k)\<close> on an item, and the \<open>theater_label\<close> of an entry as the two
  flattening functions read it (source lines 154 and 268).
\<close>

definition item_get :: "pyval \<Rightarrow> string \<Rightarrow> pyval" where
  "item_get item k = (case item of PDict d \<Rightarrow> dict_get d k | _ \<Rightarrow> PNone)"

definition entry_label :: "pyval \<Rightarrow> pyval" where
  "entry_label entry =
     (case entry of PDict e \<Rightarrow> dict_get_default e ''theater_label'' (PStr '''') | _ \<Rightarrow> PNone)"

text \<open>
  Two entries as \<^verbatim>\<open>fetch_all\<close> builds them: a theater with no movie, and a theater
  whose payload calls it by another name than its label; and the one item they give on
  2024-05-01 in the zone \<open>UTC\<close>.
\<close>

definition example_entries :: "pyval list" where
  "example_entries =
     [PDict [(''theater_label'', PStr ''Rex''),
             (''location_label'', PStr ''Austin''),
             (''showtimes'', PList [PDict [(''theater'', PStr ''Rex Cinema''),
                                           (''address'', PStr ''''),
                                           (''movies'', PList [])]])],
      PDict [(''theater_label'', PStr ''Roxy''),
             (''location_label'', PStr ''Austin''),
             (''showtimes'', PList [PDict [(''theater'', PStr ''AMC''),
                                           (''address'', PStr ''1 Main St''),
                                           (''movies'', PList [PDict [(''title'', PStr ''Heat''),
                                                                      (''times'', PList [PStr ''7 PM''])]])]])]]"

definition example_item :: pyval where
  "example_item =
     PDict [(''theater_label'', PStr ''Roxy''),
            (''location_label'', PStr ''Austin''),
            (''theater_name'', PStr ''Roxy''),
            (''address'', PStr ''1 Main St''),
            (''title'', PStr ''Heat''),
            (''times'', PList [PStr ''7 PM'']),
            (''now_str'', PStr ''2024-05-01''),
            (''tz'', PObj ''UTC'')]"

text \<open>
  A configuration with one theater, a collaborator that answers every query with one
  theater showing one movie, and a file system whose cache file holds a document dated
  2024-05-01.
\<close>

definition example_config :: config where
  "example_config =
     \<lparr>api_key = PStr ''key'', hl = PStr ''en'', gl = PStr ''us'',
      theaters = PList [PDict [(''name'', PStr ''Roxy''), (''location'', PStr ''Austin'')]],
      cycle_delay = PInt 10, cache_path = ''showtimes_cache.json'', tz = PObj ''UTC''\<rparr>"

definition example_response :: fetcher where
  "example_response k theater location h g =
     Inr (PDict [(''showtimes'',
            PList [PDict [(''name'', PStr ''AMC''),
                          (''movies'', PList [PDict [(''title'', PStr ''Heat'')]])]])])"


definition example_cached :: "pyval list" where
  "example_cached =
     [PDict [(''theater_label'', PStr ''Rex''),
             (''location_label'', PStr ''Austin''),
             (''showtimes'', PList [])]]"

definition example_files :: disk where
  "example_files =
     \<lparr>stored = (\<lambda>path. if path = ''showtimes_cache.json''
                        then Content (PDict [(''date'', PStr ''2024-05-01''),
                                             (''entries'', PList example_cached)])
                        else Absent),
      writing = (\<lambda>path. WriteOk)\<rparr>"



text \<open>
  A loop state that shows the one item of the examples, and an outside in which
  rendering raises an \<^verbatim>\<open>OSError\<close> and nothing else happens.
\<close>

definition example_state :: run_state where
  "example_state =
     \<lparr>files = example_files, entries = PList example_entries, cache_date = PStr ''2024-05-01'',
      theater_groups = [[example_item]], theater_idx = 0, movie_idx = 0\<rparr>"

definition example_env :: env where
  "example_env =
     \<lparr>now_date = ''2024-05-01'', reload_date = ''2024-05-01'',
      fetch_showtimes = example_response,
      render_error = (\<lambda>item. Some (OtherError ''OSError'')),
      delay_error = None, backoff_interrupt = False\<rparr>"

text \<open>
  A payload whose one theater has false values under the first keys of its chains, its
  movie list under \<open>showing\<close>, and a movie whose title is found under \<open>film_name\<close>.
\<close>

definition example_sparse :: "(string \<times> pyval) list" where
  "example_sparse =
     [(''showtimes'',
       PList [PDict [(''theater_name'', PStr ''''), (''name'', PInt 0),
                     (''address'', PBool False),
                     (''movies'', PNone),
                     (''showing'',
                      PList [PDict [(''title'', PStr ''''), (''film_name'', PStr ''Heat''),
                                    (''showtimes'', PList []), (''times'', PDict [])]])]])]"

text \<open>
  A loop state with two groups, of two and of three items, the cursor at the start and
  the cache file of the examples; and an outside in which nothing raises on 2024-05-01.
\<close>

definition example_rotation :: run_state where
  "example_rotation =
     \<lparr>files = example_files, entries = PList [], cache_date = PStr ''2024-05-01'',
      theater_groups = [[PStr ''a'', PStr ''b''], [PStr ''c'', PStr ''d'', PStr ''e'']],
      theater_idx = 0, movie_idx = 0\<rparr>"

definition example_quiet :: env where
  "example_quiet =
     \<lparr>now_date = ''2024-05-01'', reload_date = ''2024-05-01'',
      fetch_showtimes = example_response,
      render_error = (\<lambda>item. None),
      delay_error = None, backoff_interrupt = False\<rparr>"

section \<open>Properties of the Normalizer\<close>

lemma theaters_loop_length:
  "theaters_loop str_of ths acc = Inr r \<Longrightarrow> length r = length acc + length ths"
  by (induction ths arbitrary: acc) (auto split: sum.splits)

lemma today_only_shape:
  "today_only (py_or v (PList [])) = Inr t \<Longrightarrow> t = PList [] \<or> (\<exists>x. t = PList [x])"
  by (cases v rule: py_first.cases)
     (auto simp: today_only_def py_or_def split: if_splits sum.splits)

lemma today_only_Cons: "today_only (PList (x # rest)) = Inr (PList [x])"
  by (simp add: today_only_def)

lemma normalize_showtimes_Cons:
  "dict_get p ''showtimes'' = PList (x # rest) \<Longrightarrow>
   normalize_showtimes str_of (PDict p) =
     (case normalize_entry str_of x of Inl ex \<Rightarrow> Inl ex | Inr t \<Rightarrow> Inr [t])"
  by (simp add: normalize_showtimes_def py_or_def today_only_Cons split: sum.splits)

lemma normalize_showtimes_falsy:
  "\<not> truthy (dict_get p ''showtimes'') \<Longrightarrow> normalize_showtimes str_of (PDict p) = Inr []"
  by (simp add: normalize_showtimes_def py_or_def today_only_def)

lemma time_blocks_loop_map_filter:
  "time_blocks_loop str_of tbs acc = acc @ List.map_filter (display_time str_of) tbs"
  by (induction tbs arbitrary: acc)
     (auto simp: List.map_filter_simps display_time_def Let_def split: pyval.splits)

lemma normalize_movie_ok:
  "(\<exists>r. normalize_movie str_of movie = Inr r) \<longleftrightarrow> movie_ok movie"
proof (cases movie)
  case (PDict m)
  then show ?thesis
    by (cases "movie_time_blocks m" rule: is_iterable.cases)
       (simp_all add: normalize_movie_def movie_ok_def)
qed (simp_all add: normalize_movie_def movie_ok_def)

lemma movies_loop_ok:
  "(\<exists>r. movies_loop str_of ms acc = Inr r) \<longleftrightarrow> list_all movie_ok ms"
proof (induction ms arbitrary: acc)
  case Nil
  then show ?case by simp
next
  case (Cons m ms)
  show ?case
  proof (cases "normalize_movie str_of m")
    case (Inl x)
    with normalize_movie_ok [of str_of m] show ?thesis by simp
  next
    case (Inr row)
    with normalize_movie_ok [of str_of m] Cons.IH show ?thesis by simp
  qed
qed

lemma entry_movies_truthy: "entry_movies e = PList [] \<or> truthy (entry_movies e)"
  by (simp add: entry_movies_def py_or_def)

lemma first_day_PStr: "first_day v = PStr s \<Longrightarrow> v = PStr s"
  by (auto simp: first_day_def split: pyval.splits list.splits if_splits)

lemma first_day_PDict: "first_day v = PDict d \<Longrightarrow> v = PDict d"
  by (auto simp: first_day_def split: pyval.splits list.splits if_splits)

lemma normalize_movie_PStr: "normalize_movie str_of (PStr s) = Inl AttributeError"
  by (simp add: normalize_movie_def)

lemma normalize_entry_ok:
  "(\<exists>r. normalize_entry str_of entry = Inr r) \<longleftrightarrow> entry_ok entry"
proof (cases entry)
  case (PDict e)
  note entry = this
  show ?thesis
  proof (cases "first_day (entry_movies e)")
    case (PList ms)
    with entry movies_loop_ok [of str_of ms "[]"] show ?thesis
      by (auto simp: normalize_entry_def entry_ok_def split: sum.splits)
  next
    case (PStr s)
    with entry_movies_truthy [of e] have "s \<noteq> []"
      by (auto dest: first_day_PStr)
    then obtain c cs where "s = c # cs" by (cases s) auto
    with entry PStr show ?thesis
      by (simp add: normalize_entry_def entry_ok_def normalize_movie_PStr)
  next
    case (PDict d)
    with entry_movies_truthy [of e] have "d \<noteq> []"
      by (auto dest: first_day_PDict)
    then obtain k ks where "remdups (map fst d) = k # ks"
      by (cases "remdups (map fst d)") auto
    with entry PDict show ?thesis
      by (simp add: normalize_entry_def entry_ok_def normalize_movie_PStr)
  qed (simp_all add: entry normalize_entry_def entry_ok_def)
qed (simp_all add: normalize_entry_def entry_ok_def)

lemma normalize_showtimes_ok:
  "(\<exists>r. normalize_showtimes str_of payload = Inr r) \<longleftrightarrow> payload_ok payload"
proof (cases payload)
  case (PDict p)
  show ?thesis
  proof (cases "truthy (dict_get p ''showtimes'')")
    case False
    with PDict show ?thesis
      by (simp add: normalize_showtimes_falsy payload_ok_def)
  next
    case True
    show ?thesis
    proof (cases "dict_get p ''showtimes''" rule: py_first.cases)
      case (2 x xs)
      with PDict True normalize_entry_ok [of str_of x] show ?thesis
        by (auto simp: normalize_showtimes_Cons payload_ok_def split: sum.splits)
    next
      case (4 c cs)
      with PDict True show ?thesis
        by (simp add: normalize_showtimes_def py_or_def today_only_def payload_ok_def
                      normalize_entry_def)
    qed (use PDict True in \<open>simp_all add: normalize_showtimes_def py_or_def today_only_def payload_ok_def\<close>)
  qed
qed (simp_all add: normalize_showtimes_def payload_ok_def)

lemma first_day_sublist: "first_day (PList (PList ms # others)) = PList ms"
  by (simp add: first_day_def)

lemma normalize_entry_first_day:
  assumes "entry_movies e = PList (PList ms # others)"
  shows "normalize_entry str_of (PDict e) =
           (case movies_loop str_of ms [] of
              Inl x \<Rightarrow> Inl x
            | Inr movie_rows \<Rightarrow>
                Inr (PDict [(''theater'', entry_theater_name e),
                            (''address'', entry_address e),
                            (''movies'', PList movie_rows)]))"
  using assms by (simp add: normalize_entry_def first_day_sublist)

lemma entry_movies_from_movies:
  "dict_get e ''movies'' = PList (m # ms) \<Longrightarrow> entry_movies e = PList (m # ms)"
  by (simp add: entry_movies_def py_or_def)

text \<open>
  C4. Only the first entry of the payload's \<open>showtimes\<close> list is considered: two payloads
  whose lists start with the same entry give the same result, whatever follows. When the
  movie list of that entry starts with a list, only that first sublist contributes: two
  entries that agree on every other key and on the first sublist give the same result,
  whatever follows the first sublist and whatever follows the entry; and the result is
  made of the rows of the first sublist alone, whether the movie list was found under
  \<open>movies\<close> or under \<open>showing\<close>.
\<close>

theorem normalize_first_only:
  "(dict_get p ''showtimes'' = PList (x # later) \<and> dict_get p' ''showtimes'' = PList (x # later')
      \<longrightarrow> normalize_showtimes str_of (PDict p) = normalize_showtimes str_of (PDict p'))
   \<and> (dict_get p ''showtimes'' = PList (PDict e # later)
        \<and> dict_get p' ''showtimes'' = PList (PDict e' # later')
        \<and> dict_get e ''movies'' = PList (PList ms # others)
        \<and> dict_get e' ''movies'' = PList (PList ms # others')
        \<and> (\<forall>k. k \<noteq> ''movies'' \<longrightarrow> dict_get e' k = dict_get e k)
      \<longrightarrow> normalize_showtimes str_of (PDict p) = normalize_showtimes str_of (PDict p'))
   \<and> (dict_get p ''showtimes'' = PList (PDict e # later)
        \<and> entry_movies e = PList (PList ms # others)
      \<longrightarrow> normalize_showtimes str_of (PDict p) =
            (case movies_loop str_of ms [] of
               Inl x \<Rightarrow> Inl x
             | Inr movie_rows \<Rightarrow>
                 Inr [PDict [(''theater'', entry_theater_name e),
                             (''address'', entry_address e),
                             (''movies'', PList movie_rows)]]))"
proof (intro conjI impI)
  assume "dict_get p ''showtimes'' = PList (x # later) \<and> dict_get p' ''showtimes'' = PList (x # later')"
  then show "normalize_showtimes str_of (PDict p) = normalize_showtimes str_of (PDict p')"
    by (simp add: normalize_showtimes_Cons)
next
  assume a: "dict_get p ''showtimes'' = PList (PDict e # later)
        \<and> dict_get p' ''showtimes'' = PList (PDict e' # later')
        \<and> dict_get e ''movies'' = PList (PList ms # others)
        \<and> dict_get e' ''movies'' = PList (PList ms # others')
        \<and> (\<forall>k. k \<noteq> ''movies'' \<longrightarrow> dict_get e' k = dict_get e k)"
  then have "entry_theater_name e' = entry_theater_name e" "entry_address e' = entry_address e"
    by (simp_all add: entry_theater_name_def entry_address_def)
  with a have "normalize_entry str_of (PDict e') = normalize_entry str_of (PDict e)"
    by (simp add: normalize_entry_first_day entry_movies_from_movies cong: sum.case_cong)
  with a show "normalize_showtimes str_of (PDict p) = normalize_showtimes str_of (PDict p')"
    by (simp add: normalize_showtimes_Cons)
next
  assume "dict_get p ''showtimes'' = PList (PDict e # later)
        \<and> entry_movies e = PList (PList ms # others)"
  then show "normalize_showtimes str_of (PDict p) =
            (case movies_loop str_of ms [] of
               Inl x \<Rightarrow> Inl x
             | Inr movie_rows \<Rightarrow>
                 Inr [PDict [(''theater'', entry_theater_name e),
                             (''address'', entry_address e),
                             (''movies'', PList movie_rows)]])"
    by (simp add: normalize_showtimes_Cons normalize_entry_first_day split: sum.splits)
qed

theorem normalize_first_only_witness:
  "normalize_showtimes example_str
     (PDict [(''showtimes'',
        PList [PDict [(''name'', PStr ''Roxy''),
                      (''movies'', PList [PList [PDict [(''title'', PStr ''Heat'')]],
                                          PList [PDict [(''title'', PStr ''Ran'')]]])],
               PDict [(''name'', PStr ''Roxy''),
                      (''movies'', PList [PDict [(''title'', PStr ''Alien'')]])]])])
   = normalize_showtimes example_str
     (PDict [(''showtimes'',
        PList [PDict [(''name'', PStr ''Roxy''),
                      (''movies'', PList [PList [PDict [(''title'', PStr ''Heat'')]]])]])])
   \<and> normalize_showtimes example_str
     (PDict [(''showtimes'',
        PList [PDict [(''name'', PStr ''Roxy''),
                      (''movies'', PList [PList [PDict [(''title'', PStr ''Heat'')]],
                                          PList [PDict [(''title'', PStr ''Ran'')]]])],
               PDict [(''name'', PStr ''Roxy''),
                      (''movies'', PList [PDict [(''title'', PStr ''Alien'')]])]])])
   = normalize_showtimes example_str
     (PDict [(''showtimes'',
        PList [PDict [(''name'', PStr ''Roxy''),
                      (''movies'', PList [PList [PDict [(''title'', PStr ''Heat'')]],
                                          PList [PDict [(''title'', PStr ''Ran'')]]])]])])
   \<and> normalize_showtimes example_str
     (PDict [(''showtimes'',
        PList [PDict [(''name'', PStr ''Roxy''),
                      (''movies'', PList [PList [PDict [(''title'', PStr ''Heat'')]],
                                          PList [PDict [(''title'', PStr ''Ran'')]]])],
               PDict [(''name'', PStr ''Roxy''),
                      (''movies'', PList [PDict [(''title'', PStr ''Alien'')]])]])])
   = Inr [PDict [(''theater'', PStr ''Roxy''), (''address'', PStr ''''),
                 (''movies'', PList [PDict [(''title'', PStr ''Heat''), (''times'', PList [])]])]]"
proof -
  let ?m1 = "[PDict [(''title'', PStr ''Heat'')]]"
  let ?o = "[PList [PDict [(''title'', PStr ''Ran'')]]]"
  let ?e = "[(''name'', PStr ''Roxy''), (''movies'', PList (PList ?m1 # ?o))]"
  let ?e' = "[(''name'', PStr ''Roxy''), (''movies'', PList [PList ?m1])]"
  let ?l = "[PDict [(''name'', PStr ''Roxy''),
                    (''movies'', PList [PDict [(''title'', PStr ''Alien'')]])]]"
  let ?p = "[(''showtimes'', PList (PDict ?e # ?l))]"
  let ?p' = "[(''showtimes'', PList [PDict ?e'])]"
  let ?q = "[(''showtimes'', PList [PDict ?e])]"
  have h1: "dict_get ?p ''showtimes'' = PList (PDict ?e # ?l)
        \<and> dict_get ?q ''showtimes'' = PList (PDict ?e # [])"
    by (simp add: dict_get_def)
  have h2: "dict_get ?p ''showtimes'' = PList (PDict ?e # ?l)
        \<and> dict_get ?p' ''showtimes'' = PList (PDict ?e' # [])
        \<and> dict_get ?e ''movies'' = PList (PList ?m1 # ?o)
        \<and> dict_get ?e' ''movies'' = PList (PList ?m1 # [])
        \<and> (\<forall>k. k \<noteq> ''movies'' \<longrightarrow> dict_get ?e' k = dict_get ?e k)"
    by (simp add: dict_get_def)
  have h3: "dict_get ?p ''showtimes'' = PList (PDict ?e # ?l)
        \<and> entry_movies ?e = PList (PList ?m1 # ?o)"
    by (simp add: dict_get_def entry_movies_def py_or_def)
  have eq1: "normalize_showtimes example_str (PDict ?p) = normalize_showtimes example_str (PDict ?q)"
    using normalize_first_only [of ?p "PDict ?e" ?l ?q "[]" example_str] h1
    by blast
  have eq2: "normalize_showtimes example_str (PDict ?p) = normalize_showtimes example_str (PDict ?p')"
    using normalize_first_only [of ?p "PDict ?e" ?l ?p' "[]" example_str ?e ?e' ?m1 ?o "[]"] h2
    by blast
  have r: "movies_loop example_str ?m1 [] =
             Inr [PDict [(''title'', PStr ''Heat''), (''times'', PList [])]]"
    by code_simp
  have t: "entry_theater_name ?e = PStr ''Roxy''" "entry_address ?e = PStr ''''"
    by (simp_all add: entry_theater_name_def entry_address_def py_or_def dict_get_def)
  have "normalize_showtimes example_str (PDict ?p) =
          (case movies_loop example_str ?m1 [] of
             Inl x \<Rightarrow> Inl x
           | Inr movie_rows \<Rightarrow>
               Inr [PDict [(''theater'', entry_theater_name ?e),
                           (''address'', entry_address ?e),
                           (''movies'', PList movie_rows)]])"
    using normalize_first_only [of ?p "PDict ?e" ?l ?p' "[]" example_str ?e ?e' ?m1 ?o "[]"] h3
    by blast
  with r t have v: "normalize_showtimes example_str (PDict ?p) =
      Inr [PDict [(''theater'', PStr ''Roxy''), (''address'', PStr ''''),
                 (''movies'', PList [PDict [(''title'', PStr ''Heat''), (''times'', PList [])]])]]"
    by simp
  from eq1 eq2 v show ?thesis by simp
qed

text \<open>
  C10. Whenever \<^verbatim>\<open>normalize_showtimes\<close> returns, the list it returns has at most one
  theater entry.
\<close>

theorem normalize_at_most_one:
  "normalize_showtimes str_of payload = Inr r \<Longrightarrow> length r \<le> 1"
  by (auto simp: normalize_showtimes_def split: pyval.splits sum.splits
           dest!: today_only_shape theaters_loop_length)

theorem normalize_at_most_one_witness:
  "normalize_showtimes example_str
     (PDict [(''showtimes'', PList [PDict [(''name'', PStr ''Roxy'')], PDict [(''name'', PStr ''Rex'')]])])
   = Inr [PDict [(''theater'', PStr ''Roxy''), (''address'', PStr ''''), (''movies'', PList [])]]
   \<and> length [PDict [(''theater'', PStr ''Roxy''), (''address'', PStr ''''), (''movies'', PList [])]] \<le> 1"
proof -
  have h: "normalize_showtimes example_str
     (PDict [(''showtimes'', PList [PDict [(''name'', PStr ''Roxy'')], PDict [(''name'', PStr ''Rex'')]])])
   = Inr [PDict [(''theater'', PStr ''Roxy''), (''address'', PStr ''''), (''movies'', PList [])]]"
    by code_simp
  show ?thesis using h normalize_at_most_one [OF h] by simp
qed

text \<open>
  C5. The times of a movie row are the first 8 of what the time entries contribute, in
  order (all of them when there are fewer than 8). A dictionary with a time value and a
  label contributes \<open>time (label)\<close>, one with a time value and no label the bare time, a
  plain string itself (the empty string too), a dictionary with no time value nothing.
\<close>

theorem normalize_movie_times:
  "(movie_time_blocks m = PList tbs \<longrightarrow>
      normalize_movie str_of (PDict m) =
        Inr (PDict [(''title'', movie_title m),
                    (''times'', PList (take 8 (List.map_filter (display_time str_of) tbs)))]))
   \<and> (t \<noteq> [] \<and> ty \<noteq> [] \<longrightarrow>
        time_blocks_loop str_of [PDict [(''time'', PStr t), (''type'', PStr ty)]] []
          = [PStr (t @ '' ('' @ ty @ '')'')])
   \<and> (t \<noteq> [] \<longrightarrow> time_blocks_loop str_of [PDict [(''time'', PStr t)]] [] = [PStr t])
   \<and> time_blocks_loop str_of [PStr s] [] = [PStr s]
   \<and> (\<not> truthy (dict_get kvs ''time'') \<and> \<not> truthy (dict_get kvs ''start_time'')
        \<and> \<not> truthy (dict_get kvs ''start'') \<longrightarrow> time_blocks_loop str_of [PDict kvs] [] = [])
   \<and> length (take 8 (List.map_filter (display_time str_of) tbs))
        = min 8 (length (List.map_filter (display_time str_of) tbs))"
proof (intro conjI)
  show "movie_time_blocks m = PList tbs \<longrightarrow>
      normalize_movie str_of (PDict m) =
        Inr (PDict [(''title'', movie_title m),
                    (''times'', PList (take 8 (List.map_filter (display_time str_of) tbs)))])"
    by (simp add: normalize_movie_def time_blocks_loop_map_filter)
qed (simp_all add: py_or_def dict_get_def py_format_def)

theorem normalize_movie_times_witness:
  "normalize_movie example_str
     (PDict [(''title'', PStr ''Heat''),
             (''showtimes'',
              PList [PStr ''1 PM'',
                     PDict [(''time'', PStr ''2 PM''), (''type'', PStr ''IMAX'')],
                     PDict [(''time'', PStr ''3 PM'')],
                     PDict [(''type'', PStr ''3D'')],
                     PInt 5,
                     PStr ''4 PM'', PStr ''5 PM'', PStr ''6 PM'', PStr ''7 PM'', PStr ''8 PM'',
                     PStr ''9 PM'', PStr ''10 PM''])])
   = Inr (PDict [(''title'', PStr ''Heat''),
                 (''times'',
                  PList [PStr ''1 PM'', PStr ''2 PM (IMAX)'', PStr ''3 PM'', PStr ''4 PM'',
                         PStr ''5 PM'', PStr ''6 PM'', PStr ''7 PM'', PStr ''8 PM''])])
   \<and> time_blocks_loop example_str [PDict [(''time'', PStr ''7:30 PM''), (''type'', PStr ''IMAX'')]] []
       = [PStr ''7:30 PM (IMAX)'']
   \<and> time_blocks_loop example_str [PDict [(''time'', PStr ''7:30 PM'')]] [] = [PStr ''7:30 PM'']
   \<and> time_blocks_loop example_str [PDict [(''type'', PStr ''IMAX'')]] [] = []"
proof -
  let ?tbs = "[PStr ''1 PM'',
               PDict [(''time'', PStr ''2 PM''), (''type'', PStr ''IMAX'')],
               PDict [(''time'', PStr ''3 PM'')],
               PDict [(''type'', PStr ''3D'')],
               PInt 5,
               PStr ''4 PM'', PStr ''5 PM'', PStr ''6 PM'', PStr ''7 PM'', PStr ''8 PM'',
               PStr ''9 PM'', PStr ''10 PM'']"
  let ?m = "[(''title'', PStr ''Heat''), (''showtimes'', PList ?tbs)]"
  let ?kvs = "[(''type'', PStr ''IMAX'')]"
  have h: "movie_time_blocks ?m = PList ?tbs"
    by (simp add: movie_time_blocks_def py_or_def dict_get_def)
  have t: "movie_title ?m = PStr ''Heat''"
    by (simp add: movie_title_def py_or_def dict_get_def)
  have f: "take 8 (List.map_filter (display_time example_str) ?tbs)
           = [PStr ''1 PM'', PStr ''2 PM (IMAX)'', PStr ''3 PM'', PStr ''4 PM'',
              PStr ''5 PM'', PStr ''6 PM'', PStr ''7 PM'', PStr ''8 PM'']"
    by code_simp
  have k: "\<not> truthy (dict_get ?kvs ''time'') \<and> \<not> truthy (dict_get ?kvs ''start_time'')
        \<and> \<not> truthy (dict_get ?kvs ''start'')"
    by (simp add: dict_get_def)
  have n: "''7:30 PM'' \<noteq> [] \<and> ''IMAX'' \<noteq> []" by simp
  from normalize_movie_times [of ?m ?tbs example_str "''7:30 PM''" "''IMAX''" "''''" ?kvs] h t f k n
  show ?thesis by simp
qed

lemma fallback_chains:
  "entry_theater_name e = fallback e [''theater_name'', ''name''] (PStr ''Unknown Theater'')"
  "entry_address e = fallback e [''address'', ''address_line'', ''full_address''] (PStr '''')"
  "entry_movies e = fallback e [''movies'', ''showing''] (PList [])"
  "movie_title m = fallback m [''title'', ''name'', ''film_name''] (PStr ''(title unknown)'')"
  "movie_time_blocks m = fallback m [''showtimes'', ''times'', ''showing''] (PList [])"
  by (simp_all add: entry_theater_name_def entry_address_def entry_movies_def movie_title_def
        movie_time_blocks_def py_or_def dict_get_def split: option.splits)

lemma showtimes_absent_or_false:
  "(map_of p ''showtimes'' = None \<or> (\<exists>v. map_of p ''showtimes'' = Some v \<and> \<not> truthy v))
   \<longleftrightarrow> \<not> truthy (dict_get p ''showtimes'')"
  by (auto simp: dict_get_def split: option.splits)

text \<open>The exceptions that the normalizer can raise.\<close>

lemma normalize_movie_raises:
  "normalize_movie str_of movie = Inl x \<Longrightarrow> x = AttributeError \<or> x = TypeError"
  by (cases movie; cases "movie_time_blocks (case movie of PDict m \<Rightarrow> m)" rule: py_iter.cases)
     (auto simp: normalize_movie_def split: sum.splits)

lemma movies_loop_raises:
  "movies_loop str_of ms acc = Inl x \<Longrightarrow> x = AttributeError \<or> x = TypeError"
proof (induction ms arbitrary: acc)
  case Nil
  then show ?case by simp
next
  case (Cons m ms)
  then show ?case
    by (cases "normalize_movie str_of m") (auto dest: normalize_movie_raises)
qed

lemma py_iter_raises: "py_iter v = Inl x \<Longrightarrow> x = TypeError"
  by (cases v rule: py_iter.cases) simp_all

lemma normalize_entry_raises:
  "normalize_entry str_of entry = Inl x \<Longrightarrow> x = AttributeError \<or> x = TypeError"
  by (cases entry)
     (auto simp: normalize_entry_def Let_def split: sum.splits
           dest: py_iter_raises movies_loop_raises)

lemma theaters_loop_raises:
  "theaters_loop str_of ths acc = Inl x \<Longrightarrow> x = AttributeError \<or> x = TypeError"
proof (induction ths arbitrary: acc)
  case Nil
  then show ?case by simp
next
  case (Cons t ths)
  then show ?case
    by (cases "normalize_entry str_of t") (auto dest: normalize_entry_raises)
qed

lemma today_only_raises:
  "today_only v = Inl x \<Longrightarrow> x = TypeError \<or> x = KeyError"
  by (cases v rule: py_first.cases)
     (auto simp: today_only_def split: if_splits sum.splits)

lemma normalize_showtimes_raises:
  assumes "normalize_showtimes str_of payload = Inl x"
  shows "x = AttributeError \<or> x = TypeError \<or> x = KeyError"
proof (cases payload)
  case (PDict p)
  show ?thesis
  proof (cases "today_only (py_or (dict_get p ''showtimes'') (PList []))")
    case (Inl y)
    with assms PDict have "x = y" by (simp add: normalize_showtimes_def)
    with today_only_raises [OF Inl] show ?thesis by blast
  next
    case (Inr t)
    from today_only_shape [OF Inr] obtain ths where t: "t = PList ths" by blast
    with assms PDict Inr have "theaters_loop str_of ths [] = Inl x"
      by (simp add: normalize_showtimes_def)
    from theaters_loop_raises [OF this] show ?thesis by blast
  qed
qed (use assms in \<open>simp_all add: normalize_showtimes_def\<close>)

text \<open>The rows of the movies, one per movie and in order.\<close>

lemma normalize_movie_row:
  assumes "normalize_movie str_of movie = Inr row"
  shows "\<exists>m tbs. movie = PDict m
           \<and> py_iter (fallback m [''showtimes'', ''times'', ''showing''] (PList [])) = Inr tbs
           \<and> row = PDict [(''title'', fallback m [''title'', ''name'', ''film_name'']
                                         (PStr ''(title unknown)'')),
                          (''times'', PList (take 8 (time_blocks_loop str_of tbs [])))]"
  using assms
  by (cases movie)
     (auto simp: normalize_movie_def Let_def fallback_chains [symmetric] simp del: fallback.simps
           split: sum.splits)

lemma movies_loop_rows:
  "movies_loop str_of ms acc = Inr r \<Longrightarrow>
   \<exists>rows. r = acc @ rows
        \<and> list_all2 (\<lambda>movie row. normalize_movie str_of movie = Inr row) ms rows"
proof (induction ms arbitrary: acc)
  case Nil
  then show ?case by simp
next
  case (Cons m ms)
  from Cons.prems obtain row where row: "normalize_movie str_of m = Inr row"
    and rest: "movies_loop str_of ms (acc @ [row]) = Inr r"
    by (auto split: sum.splits)
  from Cons.IH [OF rest] obtain rows where
    "r = (acc @ [row]) @ rows"
    "list_all2 (\<lambda>movie row. normalize_movie str_of movie = Inr row) ms rows"
    by blast
  with row have "r = acc @ (row # rows)
        \<and> list_all2 (\<lambda>movie row. normalize_movie str_of movie = Inr row) (m # ms) (row # rows)"
    by simp
  then show ?case by blast
qed

lemma normalize_entry_row:
  assumes "normalize_entry str_of entry = Inr t"
  shows "\<exists>e ms rows. entry = PDict e
           \<and> first_day (fallback e [''movies'', ''showing''] (PList [])) = PList ms
           \<and> list_all2 (\<lambda>movie row. normalize_movie str_of movie = Inr row) ms rows
           \<and> t = PDict [(''theater'', fallback e [''theater_name'', ''name'']
                                          (PStr ''Unknown Theater'')),
                        (''address'', fallback e [''address'', ''address_line'', ''full_address'']
                                          (PStr '''')),
                        (''movies'', PList rows)]"
proof -
  from assms have "entry_ok entry"
    using normalize_entry_ok [of str_of entry] by blast
  then obtain e ms where e: "entry = PDict e" and ms: "first_day (entry_movies e) = PList ms"
    by (auto simp: entry_ok_def split: pyval.splits)
  with assms obtain movie_rows where l: "movies_loop str_of ms [] = Inr movie_rows"
    and t: "t = PDict [(''theater'', entry_theater_name e), (''address'', entry_address e),
                       (''movies'', PList movie_rows)]"
    by (auto simp: normalize_entry_def split: sum.splits)
  from movies_loop_rows [OF l]
  have "list_all2 (\<lambda>movie row. normalize_movie str_of movie = Inr row) ms movie_rows"
    by simp
  with e ms t show ?thesis
    by (simp add: fallback_chains [symmetric] del: fallback.simps)
qed

lemma normalize_showtimes_row:
  assumes "normalize_showtimes str_of (PDict p) = Inr r"
    and "truthy (dict_get p ''showtimes'')"
  shows "\<exists>entry later t. dict_get p ''showtimes'' = PList (entry # later)
           \<and> normalize_entry str_of entry = Inr t \<and> r = [t]"
proof -
  from assms(1) have "payload_ok (PDict p)"
    using normalize_showtimes_ok [of str_of "PDict p"] by blast
  with assms(2) obtain entry later where s: "dict_get p ''showtimes'' = PList (entry # later)"
    by (auto simp: payload_ok_def split: pyval.splits list.splits)
  with assms(1) show ?thesis
    by (auto simp: normalize_showtimes_Cons split: sum.splits)
qed

text \<open>
  C6, as the code has it. \<^verbatim>\<open>normalize_showtimes\<close> returns a list exactly for the
  payloads with the expected kinds of containers (\<open>payload_ok\<close>); for every other payload
  it raises, and what it raises is \<open>AttributeError\<close>, \<open>TypeError\<close> or \<open>KeyError\<close>.
  On the payloads it accepts, absent or false fields give the defaults. When \<open>showtimes\<close>
  is absent or false the result is the empty list. Otherwise \<open>showtimes\<close> is a list whose
  first element is a dictionary \<open>e\<close>, and the result is the one theater made from \<open>e\<close>:
  its name, its address and its movie list are the first true value of their chains of
  keys and otherwise \<open>Unknown Theater\<close>, the empty string and the empty list; there is
  one row for each movie of the first day, in order, with the first true value of the
  chain of the title and otherwise \<open>(title unknown)\<close>, and with the first eight times of
  the first true value of the chain of the time list and otherwise of the empty list.
\<close>

theorem normalize_returns_iff_ok:
  "((\<exists>r. normalize_showtimes str_of payload = Inr r) \<longleftrightarrow> payload_ok payload)
   \<and> (normalize_showtimes str_of payload = Inl x \<longrightarrow>
        x = AttributeError \<or> x = TypeError \<or> x = KeyError)
   \<and> (map_of p ''showtimes'' = None \<or> (\<exists>v. map_of p ''showtimes'' = Some v \<and> \<not> truthy v) \<longrightarrow>
        normalize_showtimes str_of (PDict p) = Inr [])
   \<and> ((\<exists>v. map_of p ''showtimes'' = Some v \<and> truthy v)
        \<and> normalize_showtimes str_of (PDict p) = Inr r \<longrightarrow>
        (\<exists>e later ms rows.
           map_of p ''showtimes'' = Some (PList (PDict e # later))
           \<and> first_day (fallback e [''movies'', ''showing''] (PList [])) = PList ms
           \<and> list_all2
               (\<lambda>movie row. \<exists>m tbs.
                  movie = PDict m
                  \<and> py_iter (fallback m [''showtimes'', ''times'', ''showing''] (PList [])) = Inr tbs
                  \<and> row = PDict [(''title'', fallback m [''title'', ''name'', ''film_name'']
                                                (PStr ''(title unknown)'')),
                                 (''times'', PList (take 8 (time_blocks_loop str_of tbs [])))])
               ms rows
           \<and> r = [PDict [(''theater'', fallback e [''theater_name'', ''name'']
                                           (PStr ''Unknown Theater'')),
                         (''address'', fallback e [''address'', ''address_line'', ''full_address'']
                                           (PStr '''')),
                         (''movies'', PList rows)]]))
   \<and> normalize_showtimes str_of (PDict []) = Inr []
   \<and> normalize_showtimes str_of (PDict [(''showtimes'', PList [PDict []])])
       = Inr [PDict [(''theater'', PStr ''Unknown Theater''), (''address'', PStr ''''),
                     (''movies'', PList [])]]
   \<and> normalize_showtimes str_of (PDict [(''showtimes'', PList [PDict [(''movies'', PList [PDict []])]])])
       = Inr [PDict [(''theater'', PStr ''Unknown Theater''), (''address'', PStr ''''),
                     (''movies'', PList [PDict [(''title'', PStr ''(title unknown)''),
                                                (''times'', PList [])]])]]"
proof (intro conjI)
  show "(\<exists>r. normalize_showtimes str_of payload = Inr r) \<longleftrightarrow> payload_ok payload"
    by (rule normalize_showtimes_ok)
  show "normalize_showtimes str_of payload = Inl x \<longrightarrow>
        x = AttributeError \<or> x = TypeError \<or> x = KeyError"
    by (blast dest: normalize_showtimes_raises)
  show "map_of p ''showtimes'' = None \<or> (\<exists>v. map_of p ''showtimes'' = Some v \<and> \<not> truthy v) \<longrightarrow>
        normalize_showtimes str_of (PDict p) = Inr []"
    using showtimes_absent_or_false [of p] normalize_showtimes_falsy [of p str_of] by blast
  show "(\<exists>v. map_of p ''showtimes'' = Some v \<and> truthy v)
        \<and> normalize_showtimes str_of (PDict p) = Inr r \<longrightarrow>
        (\<exists>e later ms rows.
           map_of p ''showtimes'' = Some (PList (PDict e # later))
           \<and> first_day (fallback e [''movies'', ''showing''] (PList [])) = PList ms
           \<and> list_all2
               (\<lambda>movie row. \<exists>m tbs.
                  movie = PDict m
                  \<and> py_iter (fallback m [''showtimes'', ''times'', ''showing''] (PList [])) = Inr tbs
                  \<and> row = PDict [(''title'', fallback m [''title'', ''name'', ''film_name'']
                                                (PStr ''(title unknown)'')),
                                 (''times'', PList (take 8 (time_blocks_loop str_of tbs [])))])
               ms rows
           \<and> r = [PDict [(''theater'', fallback e [''theater_name'', ''name'']
                                           (PStr ''Unknown Theater'')),
                         (''address'', fallback e [''address'', ''address_line'', ''full_address'']
                                           (PStr '''')),
                         (''movies'', PList rows)]])"
  proof
    assume a: "(\<exists>v. map_of p ''showtimes'' = Some v \<and> truthy v)
        \<and> normalize_showtimes str_of (PDict p) = Inr r"
    then obtain v where v: "map_of p ''showtimes'' = Some v" "truthy v"
      by blast
    then have g: "dict_get p ''showtimes'' = v"
      by (simp add: dict_get_def)
    with v(2) a normalize_showtimes_row [of str_of p r] obtain entry later t where
      s: "v = PList (entry # later)" and n: "normalize_entry str_of entry = Inr t" and r: "r = [t]"
      by auto
    from normalize_entry_row [OF n] obtain e ms rows where
      e: "entry = PDict e"
      and ms: "first_day (fallback e [''movies'', ''showing''] (PList [])) = PList ms"
      and l: "list_all2 (\<lambda>movie row. normalize_movie str_of movie = Inr row) ms rows"
      and t: "t = PDict [(''theater'', fallback e [''theater_name'', ''name'']
                                          (PStr ''Unknown Theater'')),
                        (''address'', fallback e [''address'', ''address_line'', ''full_address'']
                                          (PStr '''')),
                        (''movies'', PList rows)]"
      by blast
    from l have "list_all2
               (\<lambda>movie row. \<exists>m tbs.
                  movie = PDict m
                  \<and> py_iter (fallback m [''showtimes'', ''times'', ''showing''] (PList [])) = Inr tbs
                  \<and> row = PDict [(''title'', fallback m [''title'', ''name'', ''film_name'']
                                                (PStr ''(title unknown)'')),
                                 (''times'', PList (take 8 (time_blocks_loop str_of tbs [])))])
               ms rows"
      by (rule list_all2_mono) (rule normalize_movie_row)
    with v(1) s e ms r t show "\<exists>e later ms rows.
           map_of p ''showtimes'' = Some (PList (PDict e # later))
           \<and> first_day (fallback e [''movies'', ''showing''] (PList [])) = PList ms
           \<and> list_all2
               (\<lambda>movie row. \<exists>m tbs.
                  movie = PDict m
                  \<and> py_iter (fallback m [''showtimes'', ''times'', ''showing''] (PList [])) = Inr tbs
                  \<and> row = PDict [(''title'', fallback m [''title'', ''name'', ''film_name'']
                                                (PStr ''(title unknown)'')),
                                 (''times'', PList (take 8 (time_blocks_loop str_of tbs [])))])
               ms rows
           \<and> r = [PDict [(''theater'', fallback e [''theater_name'', ''name'']
                                           (PStr ''Unknown Theater'')),
                         (''address'', fallback e [''address'', ''address_line'', ''full_address'']
                                           (PStr '''')),
                         (''movies'', PList rows)]]"
      by blast
  qed
  show "normalize_showtimes str_of (PDict []) = Inr []"
    by (simp add: normalize_showtimes_falsy dict_get_def)
  show "normalize_showtimes str_of (PDict [(''showtimes'', PList [PDict []])])
       = Inr [PDict [(''theater'', PStr ''Unknown Theater''), (''address'', PStr ''''),
                     (''movies'', PList [])]]"
    by (simp add: normalize_showtimes_Cons [where rest = "[]"] dict_get_def normalize_entry_def
          entry_theater_name_def entry_address_def entry_movies_def first_day_def py_or_def)
  show "normalize_showtimes str_of (PDict [(''showtimes'', PList [PDict [(''movies'', PList [PDict []])]])])
       = Inr [PDict [(''theater'', PStr ''Unknown Theater''), (''address'', PStr ''''),
                     (''movies'', PList [PDict [(''title'', PStr ''(title unknown)''),
                                                (''times'', PList [])]])]]"
    by (simp add: normalize_showtimes_Cons [where rest = "[]"] dict_get_def normalize_entry_def
          entry_theater_name_def entry_address_def entry_movies_def first_day_def py_or_def
          normalize_movie_def movie_title_def movie_time_blocks_def)
qed

theorem normalize_returns_iff_ok_witness:
  "payload_ok (PDict [(''showtimes'', PList [PDict [(''movies'', PList [PDict [(''title'', PInt 7)]])]])])
   \<and> (\<exists>r. normalize_showtimes example_str
             (PDict [(''showtimes'', PList [PDict [(''movies'', PList [PDict [(''title'', PInt 7)]])]])])
           = Inr r)
   \<and> \<not> payload_ok (PDict [(''showtimes'', PList [PStr ''soon''])])
   \<and> \<not> (\<exists>r. normalize_showtimes example_str (PDict [(''showtimes'', PList [PStr ''soon''])]) = Inr r)
   \<and> normalize_showtimes example_str (PDict [(''showtimes'', PStr '''')]) = Inr []
   \<and> normalize_showtimes example_str (PDict example_sparse)
       = Inr [PDict [(''theater'', PStr ''Unknown Theater''), (''address'', PStr ''''),
                     (''movies'', PList [PDict [(''title'', PStr ''Heat''),
                                                (''times'', PList [])]])]]
   \<and> (\<exists>e later ms rows.
         map_of example_sparse ''showtimes'' = Some (PList (PDict e # later))
         \<and> first_day (fallback e [''movies'', ''showing''] (PList [])) = PList ms
         \<and> length rows = length ms
         \<and> [PDict [(''theater'', PStr ''Unknown Theater''), (''address'', PStr ''''),
                    (''movies'', PList [PDict [(''title'', PStr ''Heat''),
                                               (''times'', PList [])]])]]
           = [PDict [(''theater'', fallback e [''theater_name'', ''name'']
                                      (PStr ''Unknown Theater'')),
                     (''address'', fallback e [''address'', ''address_line'', ''full_address'']
                                      (PStr '''')),
                     (''movies'', PList rows)]])"
proof -
  let ?r = "[PDict [(''theater'', PStr ''Unknown Theater''), (''address'', PStr ''''),
                    (''movies'', PList [PDict [(''title'', PStr ''Heat''),
                                               (''times'', PList [])]])]]"
  have a: "payload_ok (PDict [(''showtimes'', PList [PDict [(''movies'', PList [PDict [(''title'', PInt 7)]])]])])"
    by code_simp
  have b: "\<not> payload_ok (PDict [(''showtimes'', PList [PStr ''soon''])])"
    by code_simp
  have c: "map_of [(''showtimes'', PStr '''')] ''showtimes'' = Some (PStr '''') \<and> \<not> truthy (PStr '''')"
    by simp
  have d: "normalize_showtimes example_str (PDict example_sparse) = Inr ?r"
    by code_simp
  have t: "\<exists>v. map_of example_sparse ''showtimes'' = Some v \<and> truthy v"
    by (simp add: example_sparse_def)
  from c normalize_returns_iff_ok [of example_str _ _ "[(''showtimes'', PStr '''')]"]
  have c': "normalize_showtimes example_str (PDict [(''showtimes'', PStr '''')]) = Inr []"
    by blast
  from t d normalize_returns_iff_ok [of example_str _ _ example_sparse ?r]
  obtain e later ms rows where
    "map_of example_sparse ''showtimes'' = Some (PList (PDict e # later))"
    "first_day (fallback e [''movies'', ''showing''] (PList [])) = PList ms"
    "list_all2
       (\<lambda>movie row. \<exists>m tbs.
          movie = PDict m
          \<and> py_iter (fallback m [''showtimes'', ''times'', ''showing''] (PList [])) = Inr tbs
          \<and> row = PDict [(''title'', fallback m [''title'', ''name'', ''film_name'']
                                        (PStr ''(title unknown)'')),
                         (''times'', PList (take 8 (time_blocks_loop example_str tbs [])))])
       ms rows"
    "?r = [PDict [(''theater'', fallback e [''theater_name'', ''name'']
                                      (PStr ''Unknown Theater'')),
                     (''address'', fallback e [''address'', ''address_line'', ''full_address'']
                                      (PStr '''')),
                     (''movies'', PList rows)]]"
    by blast
  then have s: "\<exists>e later ms rows.
         map_of example_sparse ''showtimes'' = Some (PList (PDict e # later))
         \<and> first_day (fallback e [''movies'', ''showing''] (PList [])) = PList ms
         \<and> length rows = length ms
         \<and> ?r = [PDict [(''theater'', fallback e [''theater_name'', ''name'']
                                      (PStr ''Unknown Theater'')),
                     (''address'', fallback e [''address'', ''address_line'', ''full_address'']
                                      (PStr '''')),
                     (''movies'', PList rows)]]"
    by (blast dest: list_all2_lengthD [symmetric])
  from a b normalize_returns_iff_ok [of example_str
           "PDict [(''showtimes'', PList [PDict [(''movies'', PList [PDict [(''title'', PInt 7)]])]])]"]
       normalize_returns_iff_ok [of example_str "PDict [(''showtimes'', PList [PStr ''soon''])]"]
  have ab: "(\<exists>r. normalize_showtimes example_str
             (PDict [(''showtimes'', PList [PDict [(''movies'', PList [PDict [(''title'', PInt 7)]])]])])
           = Inr r)
   \<and> \<not> (\<exists>r. normalize_showtimes example_str (PDict [(''showtimes'', PList [PStr ''soon''])]) = Inr r)"
    by blast
  from a b ab c' d s show ?thesis
    by blast
qed

theorem normalize_raises_counterexample:
  "normalize_showtimes example_str (PDict [(''showtimes'', PList [PStr ''soon''])]) = Inl AttributeError"
  by code_simp

section \<open>Properties of the Flattener\<close>

lemma group_movie_loop_acc:
  "group_movie_loop z lbl loc tn ad now ms acc =
     (case group_movie_loop z lbl loc tn ad now ms [] of Inl x \<Rightarrow> Inl x | Inr r \<Rightarrow> Inr (acc @ r))"
proof (induction ms arbitrary: acc)
  case Nil
  show ?case by simp
next
  case (Cons movie ms)
  show ?case
  proof (cases movie)
    case (PDict m)
    show ?thesis
      using Cons.IH [of "acc @ [movie_item lbl loc tn ad m now z]"]
            Cons.IH [of "[movie_item lbl loc tn ad m now z]"]
      by (simp add: PDict split: sum.splits)
  qed simp_all
qed

lemma flatten_movie_loop_eq:
  "flatten_movie_loop lbl loc tn ad now z ms acc = group_movie_loop z lbl loc tn ad now ms acc"
  by (induction ms arbitrary: acc) (auto split: pyval.splits)

lemma group_theater_loop_acc:
  "group_theater_loop z lbl loc now ths acc =
     (case group_theater_loop z lbl loc now ths [] of Inl x \<Rightarrow> Inl x | Inr r \<Rightarrow> Inr (acc @ r))"
proof (induction ths arbitrary: acc)
  case Nil
  show ?case by simp
next
  case (Cons theater ths)
  show ?case
  proof (cases theater)
    case (PDict t)
    let ?tn = "py_or lbl (PStr ''Unknown Theater'')"
    let ?ad = "py_or (dict_get t ''address'') (PStr '''')"
    show ?thesis
    proof (cases "py_iter (dict_get_default t ''movies'' (PList []))")
      case (Inl x)
      with PDict show ?thesis by simp
    next
      case (Inr ms)
      show ?thesis
      proof (cases "group_movie_loop z lbl loc ?tn ?ad now ms []")
        case (Inl x)
        with PDict Inr group_movie_loop_acc [of z lbl loc ?tn ?ad now ms acc] show ?thesis
          by simp
      next
        case r: (Inr r)
        with PDict Inr group_movie_loop_acc [of z lbl loc ?tn ?ad now ms acc]
             Cons.IH [of "acc @ r"] Cons.IH [of r]
        show ?thesis
          by (simp split: sum.splits)
      qed
    qed
  qed simp_all
qed

lemma flatten_theater_loop_eq:
  "flatten_theater_loop lbl loc now z ths acc = group_theater_loop z lbl loc now ths acc"
  by (induction ths arbitrary: acc)
     (auto simp: flatten_movie_loop_eq Let_def split: pyval.splits sum.splits)

lemma flatten_entry_loop_concat:
  "flatten_entry_loop now z es (concat gs) =
     (case group_entry_loop z now es gs of Inl x \<Rightarrow> Inl x | Inr gs' \<Rightarrow> Inr (concat gs'))"
proof (induction es arbitrary: gs)
  case Nil
  show ?case by simp
next
  case (Cons entry es)
  show ?case
  proof (cases entry)
    case (PDict e)
    let ?lbl = "dict_get_default e ''theater_label'' (PStr '''')"
    let ?loc = "dict_get_default e ''location_label'' (PStr '''')"
    show ?thesis
    proof (cases "py_iter (dict_get_default e ''showtimes'' (PList []))")
      case (Inl x)
      with PDict show ?thesis by (simp add: theater_movies_of_def)
    next
      case (Inr ths)
      show ?thesis
      proof (cases "group_theater_loop z ?lbl ?loc now ths []")
        case (Inl x)
        with PDict Inr group_theater_loop_acc [of z ?lbl ?loc now ths "concat gs"] show ?thesis
          by (simp add: theater_movies_of_def flatten_theater_loop_eq)
      next
        case tm: (Inr tm)
        with PDict Inr group_theater_loop_acc [of z ?lbl ?loc now ths "concat gs"]
        have step: "flatten_entry_loop now z (entry # es) (concat gs) =
                      flatten_entry_loop now z es (concat gs @ tm)"
          and grp: "group_entry_loop z now (entry # es) gs =
                      group_entry_loop z now es (if tm \<noteq> [] then gs @ [tm] else gs)"
          by (simp_all add: theater_movies_of_def flatten_theater_loop_eq)
        have "concat gs @ tm = concat (if tm \<noteq> [] then gs @ [tm] else gs)"
          by simp
        with step grp Cons.IH [of "if tm \<noteq> [] then gs @ [tm] else gs"]
        show ?thesis
          by (simp only:)
      qed
    qed
  qed (simp_all add: theater_movies_of_def)
qed

lemma flatten_movies_concat_groups:
  "flatten_movies es now z =
     (case group_movies_by_theater z es now of Inl x \<Rightarrow> Inl x | Inr gs \<Rightarrow> Inr (concat gs))"
  using flatten_entry_loop_concat [of now z _ "[]"]
  by (simp add: flatten_movies_def group_movies_by_theater_def split: sum.splits)

lemma group_entry_loop_filter:
  "group_entry_loop z now es gs0 = Inr gs \<Longrightarrow>
   \<exists>tms. list_all2 (\<lambda>e tm. theater_movies_of z e now = Inr tm) es tms
         \<and> gs = gs0 @ filter (\<lambda>g. g \<noteq> []) tms"
proof (induction es arbitrary: gs0)
  case Nil
  then show ?case by simp
next
  case (Cons entry es)
  from Cons.prems obtain tm where tm: "theater_movies_of z entry now = Inr tm"
    and rest: "group_entry_loop z now es (if tm \<noteq> [] then gs0 @ [tm] else gs0) = Inr gs"
    by (auto split: sum.splits)
  from Cons.IH [OF rest] obtain tms where
    "list_all2 (\<lambda>e tm. theater_movies_of z e now = Inr tm) es tms"
    "gs = (if tm \<noteq> [] then gs0 @ [tm] else gs0) @ filter (\<lambda>g. g \<noteq> []) tms"
    by blast
  with tm have "list_all2 (\<lambda>e tm. theater_movies_of z e now = Inr tm) (entry # es) (tm # tms)
      \<and> gs = gs0 @ filter (\<lambda>g. g \<noteq> []) (tm # tms)"
    by simp
  then show ?case by blast
qed

lemma group_movie_loop_items:
  "group_movie_loop z lbl loc tn ad now ms acc = Inr r \<Longrightarrow> item \<in> set r \<Longrightarrow>
   item \<in> set acc \<or> (\<exists>m. item = movie_item lbl loc tn ad m now z)"
proof (induction ms arbitrary: acc)
  case Nil
  then show ?case by simp
next
  case (Cons movie ms)
  then show ?case
    by (cases movie) (fastforce dest: Cons.IH)+
qed

lemma group_theater_loop_items:
  "group_theater_loop z lbl loc now ths acc = Inr r \<Longrightarrow> item \<in> set r \<Longrightarrow>
   item \<in> set acc \<or>
   (\<exists>ad m. item = movie_item lbl loc (py_or lbl (PStr ''Unknown Theater'')) ad m now z)"
proof (induction ths arbitrary: acc)
  case Nil
  then show ?case by simp
next
  case (Cons theater ths)
  from Cons.prems(1) obtain t ms acc' where
    "theater = PDict t"
    "group_movie_loop z lbl loc (py_or lbl (PStr ''Unknown Theater''))
        (py_or (dict_get t ''address'') (PStr '''')) now ms acc = Inr acc'"
    "group_theater_loop z lbl loc now ths acc' = Inr r"
    by (auto simp: Let_def split: pyval.splits sum.splits)
  with Cons.IH [of acc'] Cons.prems(2) show ?case
    by (blast dest: group_movie_loop_items)
qed

lemma item_get_movie_item:
  "item_get (movie_item lbl loc tn ad m now z) ''theater_label'' = lbl"
  "item_get (movie_item lbl loc tn ad m now z) ''theater_name'' = tn"
  by (simp_all add: item_get_def movie_item_def dict_get_def)

lemma theater_movies_of_items:
  assumes "theater_movies_of z entry now = Inr tm" and "item \<in> set tm"
  shows "item_get item ''theater_label'' = entry_label entry
       \<and> item_get item ''theater_name'' =
           (if truthy (entry_label entry) then entry_label entry else PStr ''Unknown Theater'')"
proof -
  from assms(1) obtain e ths where e: "entry = PDict e"
    and "group_theater_loop z (dict_get_default e ''theater_label'' (PStr ''''))
           (dict_get_default e ''location_label'' (PStr '''')) now ths [] = Inr tm"
    by (auto simp: theater_movies_of_def Let_def split: pyval.splits sum.splits)
  from group_theater_loop_items [OF this(2) assms(2)] e show ?thesis
    by (auto simp: item_get_movie_item entry_label_def py_or_def)
qed

text \<open>
  C9. \<^verbatim>\<open>flatten_movies\<close> returns the concatenation of the groups that
  \<^verbatim>\<open>group_movies_by_theater\<close> returns on the same entries and date stamp, and raises
  the same exception when that raises. The time zone is an input of both, the parameter
  \<open>tz\<close> of the one and the variable \<open>tz\<close> of \<^verbatim>\<open>run_display\<close> for the other; it is the
  same value \<open>z\<close> here.
\<close>

theorem flatten_movies_is_concat_of_groups:
  "flatten_movies es now z =
     (case group_movies_by_theater z es now of Inl x \<Rightarrow> Inl x | Inr gs \<Rightarrow> Inr (concat gs))"
proof (cases "py_iter es")
  case (Inl x)
  then show ?thesis
    by (simp add: flatten_movies_def group_movies_by_theater_def)
next
  case (Inr entry_list)
  have "flatten_entry_loop now z entry_list (concat []) =
          (case group_entry_loop z now entry_list [] of
             Inl x \<Rightarrow> Inl x
           | Inr gs \<Rightarrow> Inr (concat gs))"
    by (rule flatten_entry_loop_concat)
  with Inr show ?thesis
    by (simp add: flatten_movies_def group_movies_by_theater_def)
qed

theorem flatten_movies_is_concat_of_groups_witness:
  "flatten_movies (PList example_entries) (PStr ''2024-05-01'') (PObj ''UTC'') = Inr [example_item]
   \<and> group_movies_by_theater (PObj ''UTC'') (PList example_entries) (PStr ''2024-05-01'')
       = Inr [[example_item]]"
proof -
  have g: "group_movies_by_theater (PObj ''UTC'') (PList example_entries) (PStr ''2024-05-01'')
             = Inr [[example_item]]"
    by code_simp
  with flatten_movies_is_concat_of_groups
         [of "PList example_entries" "PStr ''2024-05-01''" "PObj ''UTC''"]
  show ?thesis by simp
qed

text \<open>
  C8. Every group that \<^verbatim>\<open>group_movies_by_theater\<close> returns has at least one item: the
  groups are the lists \<^verbatim>\<open>theater_movies\<close> of the entries, in order, without the empty
  ones.
\<close>

theorem groups_never_empty:
  "group_movies_by_theater z (PList es) now = Inr gs \<Longrightarrow>
   (\<forall>g \<in> set gs. 1 \<le> length g)
   \<and> (\<exists>tms. list_all2 (\<lambda>e tm. theater_movies_of z e now = Inr tm) es tms
             \<and> gs = filter (\<lambda>g. g \<noteq> []) tms)"
  using group_entry_loop_filter [of z now es "[]" gs]
  by (auto simp: group_movies_by_theater_def Suc_le_eq)

lemma concat_without_empty: "concat (filter (\<lambda>g. g \<noteq> []) tms) = concat tms"
  by (induction tms) simp_all

lemma labelled_entries:
  assumes "list_all2 (\<lambda>entry tm. theater_movies_of z entry now = Inr tm) es tms"
  shows "list_all2
           (\<lambda>entry tm.
              theater_movies_of z entry now = Inr tm
              \<and> (\<forall>item \<in> set tm.
                    item_get item ''theater_label'' = entry_label entry
                    \<and> item_get item ''theater_name'' =
                        (if truthy (entry_label entry) then entry_label entry
                         else PStr ''Unknown Theater'')))
           es tms"
  using assms
  by (rule list_all2_mono) (blast dest: theater_movies_of_items)

text \<open>
  C7, as the code has it. The items made from one entry, the list \<^verbatim>\<open>theater_movies\<close>
  of that entry, all carry the entry's \<open>theater_label\<close>, and their \<open>theater_name\<close> is
  that label when the label is true (not empty) and \<open>Unknown Theater\<close> when the label is
  absent or empty: the name in the theater dictionaries of the entry is never read. The
  groups that \<^verbatim>\<open>group_movies_by_theater\<close> returns are these lists, entry by entry and
  in the order of the entries, without the empty ones; and what \<^verbatim>\<open>flatten_movies\<close>
  returns is these lists one after the other. So every item is named after the entry it
  was made from, and after no other.
\<close>

theorem theater_name_from_label:
  "(theater_movies_of z entry now = Inr tm \<longrightarrow>
      (\<forall>item \<in> set tm.
         item_get item ''theater_label'' = entry_label entry
         \<and> item_get item ''theater_name'' =
             (if truthy (entry_label entry) then entry_label entry else PStr ''Unknown Theater'')))
   \<and> (group_movies_by_theater z (PList es) now = Inr gs \<longrightarrow>
      (\<exists>tms. list_all2
                (\<lambda>entry tm.
                   theater_movies_of z entry now = Inr tm
                   \<and> (\<forall>item \<in> set tm.
                         item_get item ''theater_label'' = entry_label entry
                         \<and> item_get item ''theater_name'' =
                             (if truthy (entry_label entry) then entry_label entry
                              else PStr ''Unknown Theater'')))
                es tms
             \<and> gs = filter (\<lambda>g. g \<noteq> []) tms))
   \<and> (flatten_movies (PList es) now z = Inr items \<longrightarrow>
      (\<exists>tms. list_all2
                (\<lambda>entry tm.
                   theater_movies_of z entry now = Inr tm
                   \<and> (\<forall>item \<in> set tm.
                         item_get item ''theater_label'' = entry_label entry
                         \<and> item_get item ''theater_name'' =
                             (if truthy (entry_label entry) then entry_label entry
                              else PStr ''Unknown Theater'')))
                es tms
             \<and> items = concat tms))"
proof (intro conjI impI)
  assume "theater_movies_of z entry now = Inr tm"
  then show "\<forall>item \<in> set tm.
         item_get item ''theater_label'' = entry_label entry
         \<and> item_get item ''theater_name'' =
             (if truthy (entry_label entry) then entry_label entry else PStr ''Unknown Theater'')"
    by (blast dest: theater_movies_of_items)
next
  assume "group_movies_by_theater z (PList es) now = Inr gs"
  then have "group_entry_loop z now es [] = Inr gs"
    by (simp add: group_movies_by_theater_def)
  from group_entry_loop_filter [OF this] obtain tms where
    l: "list_all2 (\<lambda>entry tm. theater_movies_of z entry now = Inr tm) es tms"
    and gs: "gs = filter (\<lambda>g. g \<noteq> []) tms"
    by auto
  from labelled_entries [OF l] gs
  show "\<exists>tms. list_all2
                (\<lambda>entry tm.
                   theater_movies_of z entry now = Inr tm
                   \<and> (\<forall>item \<in> set tm.
                         item_get item ''theater_label'' = entry_label entry
                         \<and> item_get item ''theater_name'' =
                             (if truthy (entry_label entry) then entry_label entry
                              else PStr ''Unknown Theater'')))
                es tms
             \<and> gs = filter (\<lambda>g. g \<noteq> []) tms"
    by blast
next
  assume "flatten_movies (PList es) now z = Inr items"
  then obtain gs' where g: "group_entry_loop z now es [] = Inr gs'" and i: "items = concat gs'"
    by (auto simp: flatten_movies_concat_groups group_movies_by_theater_def split: sum.splits)
  from group_entry_loop_filter [OF g] obtain tms where
    l: "list_all2 (\<lambda>entry tm. theater_movies_of z entry now = Inr tm) es tms"
    and gs: "gs' = filter (\<lambda>g. g \<noteq> []) tms"
    by auto
  from i gs have "items = concat tms"
    by (simp add: concat_without_empty)
  with labelled_entries [OF l]
  show "\<exists>tms. list_all2
                (\<lambda>entry tm.
                   theater_movies_of z entry now = Inr tm
                   \<and> (\<forall>item \<in> set tm.
                         item_get item ''theater_label'' = entry_label entry
                         \<and> item_get item ''theater_name'' =
                             (if truthy (entry_label entry) then entry_label entry
                              else PStr ''Unknown Theater'')))
                es tms
             \<and> items = concat tms"
    by blast
qed

lemma example_groups:
  "group_movies_by_theater (PObj ''UTC'') (PList example_entries) (PStr ''2024-05-01'')
     = Inr [[example_item]]"
  by code_simp

lemma example_flat:
  "flatten_movies (PList example_entries) (PStr ''2024-05-01'') (PObj ''UTC'') = Inr [example_item]"
  by code_simp

theorem groups_never_empty_witness:
  "group_movies_by_theater (PObj ''UTC'') (PList example_entries) (PStr ''2024-05-01'')
     = Inr [[example_item]]
   \<and> length example_entries = 2 \<and> length [[example_item]] = 1 \<and> 1 \<le> length [example_item]"
  using example_groups groups_never_empty [OF example_groups]
  by (simp add: example_entries_def)

theorem theater_name_from_label_witness:
  "group_movies_by_theater (PObj ''UTC'') (PList example_entries) (PStr ''2024-05-01'')
     = Inr [[example_item]]
   \<and> flatten_movies (PList example_entries) (PStr ''2024-05-01'') (PObj ''UTC'') = Inr [example_item]
   \<and> theater_movies_of (PObj ''UTC'') (example_entries ! 1) (PStr ''2024-05-01'')
       = Inr [example_item]
   \<and> entry_label (example_entries ! 1) = PStr ''Roxy''
   \<and> item_get example_item ''theater_label'' = entry_label (example_entries ! 1)
   \<and> item_get example_item ''theater_name'' = PStr ''Roxy''
   \<and> (\<exists>tms. list_all2
               (\<lambda>entry tm.
                  theater_movies_of (PObj ''UTC'') entry (PStr ''2024-05-01'') = Inr tm
                  \<and> (\<forall>item \<in> set tm.
                        item_get item ''theater_label'' = entry_label entry
                        \<and> item_get item ''theater_name'' =
                            (if truthy (entry_label entry) then entry_label entry
                             else PStr ''Unknown Theater'')))
               example_entries tms
            \<and> [[example_item]] = filter (\<lambda>g. g \<noteq> []) tms)
   \<and> (\<exists>tms. list_all2
               (\<lambda>entry tm.
                  theater_movies_of (PObj ''UTC'') entry (PStr ''2024-05-01'') = Inr tm
                  \<and> (\<forall>item \<in> set tm.
                        item_get item ''theater_label'' = entry_label entry
                        \<and> item_get item ''theater_name'' =
                            (if truthy (entry_label entry) then entry_label entry
                             else PStr ''Unknown Theater'')))
               example_entries tms
            \<and> [example_item] = concat tms)"
proof -
  have tm: "theater_movies_of (PObj ''UTC'') (example_entries ! 1) (PStr ''2024-05-01'')
              = Inr [example_item]"
    by code_simp
  have lbl: "entry_label (example_entries ! 1) = PStr ''Roxy''"
    by code_simp
  note t = theater_name_from_label [of "PObj ''UTC''" "example_entries ! 1" "PStr ''2024-05-01''"
             "[example_item]" example_entries "[[example_item]]" "[example_item]"]
  from t tm have "\<forall>item \<in> set [example_item].
         item_get item ''theater_label'' = entry_label (example_entries ! 1)
         \<and> item_get item ''theater_name'' =
             (if truthy (entry_label (example_entries ! 1)) then entry_label (example_entries ! 1)
              else PStr ''Unknown Theater'')"
    by blast
  with lbl have one: "item_get example_item ''theater_label'' = entry_label (example_entries ! 1)"
    "item_get example_item ''theater_name'' = PStr ''Roxy''"
    by simp_all
  from t example_groups have groups: "\<exists>tms. list_all2
               (\<lambda>entry tm.
                  theater_movies_of (PObj ''UTC'') entry (PStr ''2024-05-01'') = Inr tm
                  \<and> (\<forall>item \<in> set tm.
                        item_get item ''theater_label'' = entry_label entry
                        \<and> item_get item ''theater_name'' =
                            (if truthy (entry_label entry) then entry_label entry
                             else PStr ''Unknown Theater'')))
               example_entries tms
            \<and> [[example_item]] = filter (\<lambda>g. g \<noteq> []) tms"
    by blast
  from t example_flat have flat: "\<exists>tms. list_all2
               (\<lambda>entry tm.
                  theater_movies_of (PObj ''UTC'') entry (PStr ''2024-05-01'') = Inr tm
                  \<and> (\<forall>item \<in> set tm.
                        item_get item ''theater_label'' = entry_label entry
                        \<and> item_get item ''theater_name'' =
                            (if truthy (entry_label entry) then entry_label entry
                             else PStr ''Unknown Theater'')))
               example_entries tms
            \<and> [example_item] = concat tms"
    by blast
  from example_groups example_flat tm lbl one groups flat show ?thesis
    by blast
qed

theorem theater_name_not_label_counterexample:
  "group_movies_by_theater (PObj ''UTC'')
     (PList [PDict [(''theater_label'', PStr ''''),
                    (''location_label'', PStr ''Austin''),
                    (''showtimes'', PList [PDict [(''theater'', PStr ''AMC''),
                                                  (''address'', PStr ''''),
                                                  (''movies'', PList [PDict [(''title'', PStr ''Heat''),
                                                                             (''times'', PList [])]])]])]])
     (PStr ''2024-05-01'')
   = Inr [[PDict [(''theater_label'', PStr ''''),
                  (''location_label'', PStr ''Austin''),
                  (''theater_name'', PStr ''Unknown Theater''),
                  (''address'', PStr ''''),
                  (''title'', PStr ''Heat''),
                  (''times'', PList []),
                  (''now_str'', PStr ''2024-05-01''),
                  (''tz'', PObj ''UTC'')]]]
   \<and> PStr ''Unknown Theater'' \<noteq> PStr ''''"
  by code_simp

section \<open>Properties of the Rotation Engine: the cursor\<close>

lemma dict_get_present_nonempty: "dict_get c k = PStr v \<Longrightarrow> c \<noteq> []"
  by (auto simp: dict_get_def)

lemma loop_iteration_fresh:
  assumes "load_cached (files s) (cache_path cfg) = PDict c"
    and "dict_get c ''date'' = PStr (now_date w)"
  shows "loop_iteration str_of w cfg s = display_part w cfg s []"
  using assms dict_get_present_nonempty [OF assms(2)]
  by (simp add: loop_iteration_def)

lemma display_part_quiet:
  assumes "current_item (theater_groups s) (theater_idx s) (movie_idx s) = Inr (tn, mn, item)"
    and "render_error w item = None" and "delay_error w = None"
  shows "display_part w cfg s evs =
           (Inr (s\<lparr>theater_idx := fst (advance (theater_groups s ! nat tn) (theater_idx s) (movie_idx s)),
                   movie_idx := snd (advance (theater_groups s ! nat tn) (theater_idx s) (movie_idx s))\<rparr>),
            evs @ [Render item, Sleep (cycle_delay cfg)])"
  using assms by (simp add: display_part_def split: prod.splits)

lemma sizes_2_3:
  assumes "map length groups = [2, 3]"
  obtains a b c d e where "groups = [[a, b], [c, d, e]]"
proof -
  from assms obtain g1 g2 where g: "groups = [g1, g2]" "length g1 = 2" "length g2 = 3"
    by (auto simp: map_eq_Cons_conv)
  from g(2) obtain a b where "g1 = [a, b]"
    by (auto simp: length_Suc_conv numeral_2_eq_2)
  moreover from g(3) obtain c d e where "g2 = [c, d, e]"
    by (auto simp: length_Suc_conv numeral_3_eq_3)
  ultimately show ?thesis using g(1) that by blast
qed

text \<open>
  One iteration with a fresh cache and nothing raised, at each of the five places of the
  cursor: \<open>j\<close> counts the rounds made so far.
\<close>

lemma iteration_2_3:
  assumes g: "theater_groups s = [[a, b], [c, d, e]]"
    and f: "load_cached (files s) (cache_path cfg) = PDict cc" "dict_get cc ''date'' = PStr (now_date w)"
    and q: "delay_error w = None" "\<forall>item \<in> set [a, b, c, d, e]. render_error w item = None"
  shows "theater_idx s = 2 * j \<Longrightarrow> movie_idx s = 0 \<Longrightarrow>
           loop_iteration str_of w cfg s = (Inr (s\<lparr>theater_idx := 2 * j, movie_idx := 1\<rparr>), shown cfg [a])"
    and "theater_idx s = 2 * j \<Longrightarrow> movie_idx s = 1 \<Longrightarrow>
           loop_iteration str_of w cfg s = (Inr (s\<lparr>theater_idx := 2 * j + 1, movie_idx := 0\<rparr>), shown cfg [b])"
    and "theater_idx s = 2 * j + 1 \<Longrightarrow> movie_idx s = 0 \<Longrightarrow>
           loop_iteration str_of w cfg s = (Inr (s\<lparr>theater_idx := 2 * j + 1, movie_idx := 1\<rparr>), shown cfg [c])"
    and "theater_idx s = 2 * j + 1 \<Longrightarrow> movie_idx s = 1 \<Longrightarrow>
           loop_iteration str_of w cfg s = (Inr (s\<lparr>theater_idx := 2 * j + 1, movie_idx := 2\<rparr>), shown cfg [d])"
    and "theater_idx s = 2 * j + 1 \<Longrightarrow> movie_idx s = 2 \<Longrightarrow>
           loop_iteration str_of w cfg s = (Inr (s\<lparr>theater_idx := 2 * j + 2, movie_idx := 0\<rparr>), shown cfg [e])"
proof -
  have m: "(2 * j + 1) mod 2 = (1::int)" by presburger
  note l = loop_iteration_fresh [OF f, of str_of]
  {
    assume "theater_idx s = 2 * j" "movie_idx s = 0"
    then have "current_item (theater_groups s) (theater_idx s) (movie_idx s) = Inr (0, 0, a)"
      by (simp add: g current_item_def)
    from display_part_quiet [OF this, of w cfg "[]"] q \<open>theater_idx s = 2 * j\<close> \<open>movie_idx s = 0\<close>
    show "loop_iteration str_of w cfg s = (Inr (s\<lparr>theater_idx := 2 * j, movie_idx := 1\<rparr>), shown cfg [a])"
      by (simp add: l g advance_def shown_def)
  next
    assume "theater_idx s = 2 * j" "movie_idx s = 1"
    then have "current_item (theater_groups s) (theater_idx s) (movie_idx s) = Inr (0, 1, b)"
      by (simp add: g current_item_def)
    from display_part_quiet [OF this, of w cfg "[]"] q \<open>theater_idx s = 2 * j\<close> \<open>movie_idx s = 1\<close>
    show "loop_iteration str_of w cfg s = (Inr (s\<lparr>theater_idx := 2 * j + 1, movie_idx := 0\<rparr>), shown cfg [b])"
      by (simp add: l g advance_def shown_def)
  next
    assume "theater_idx s = 2 * j + 1" "movie_idx s = 0"
    then have "current_item (theater_groups s) (theater_idx s) (movie_idx s) = Inr (1, 0, c)"
      by (simp add: g current_item_def m)
    from display_part_quiet [OF this, of w cfg "[]"] q \<open>theater_idx s = 2 * j + 1\<close> \<open>movie_idx s = 0\<close>
    show "loop_iteration str_of w cfg s = (Inr (s\<lparr>theater_idx := 2 * j + 1, movie_idx := 1\<rparr>), shown cfg [c])"
      by (simp add: l g advance_def shown_def)
  next
    assume "theater_idx s = 2 * j + 1" "movie_idx s = 1"
    then have "current_item (theater_groups s) (theater_idx s) (movie_idx s) = Inr (1, 1, d)"
      by (simp add: g current_item_def m)
    from display_part_quiet [OF this, of w cfg "[]"] q \<open>theater_idx s = 2 * j + 1\<close> \<open>movie_idx s = 1\<close>
    show "loop_iteration str_of w cfg s = (Inr (s\<lparr>theater_idx := 2 * j + 1, movie_idx := 2\<rparr>), shown cfg [d])"
      by (simp add: l g advance_def shown_def)
  next
    assume "theater_idx s = 2 * j + 1" "movie_idx s = 2"
    then have "current_item (theater_groups s) (theater_idx s) (movie_idx s) = Inr (1, 2, e)"
      by (simp add: g current_item_def m)
    from display_part_quiet [OF this, of w cfg "[]"] q \<open>theater_idx s = 2 * j + 1\<close> \<open>movie_idx s = 2\<close>
    show "loop_iteration str_of w cfg s = (Inr (s\<lparr>theater_idx := 2 * j + 2, movie_idx := 0\<rparr>), shown cfg [e])"
      by (simp add: l g advance_def shown_def)
  }
qed

lemma round_2_3:
  assumes g: "theater_groups s = [[a, b], [c, d, e]]"
    and f: "load_cached (files s) (cache_path cfg) = PDict cc" "dict_get cc ''date'' = PStr today"
    and q: "\<forall>w \<in> set [w1, w2, w3, w4, w5].
              now_date w = today \<and> delay_error w = None
              \<and> (\<forall>item \<in> set [a, b, c, d, e]. render_error w item = None)"
    and c: "theater_idx s = 2 * j" "movie_idx s = 0"
  shows "run_loop str_of [w1, w2, w3, w4, w5] cfg s =
           (Inr (s\<lparr>theater_idx := 2 * j + 2, movie_idx := 0\<rparr>), shown cfg [a, b, c, d, e])"
proof -
  let ?s1 = "s\<lparr>theater_idx := 2 * j, movie_idx := 1\<rparr>"
  let ?s2 = "s\<lparr>theater_idx := 2 * j + 1, movie_idx := 0\<rparr>"
  let ?s3 = "s\<lparr>theater_idx := 2 * j + 1, movie_idx := 1\<rparr>"
  let ?s4 = "s\<lparr>theater_idx := 2 * j + 1, movie_idx := 2\<rparr>"
  let ?s5 = "s\<lparr>theater_idx := 2 * j + 2, movie_idx := 0\<rparr>"
  have fresh: "dict_get cc ''date'' = PStr (now_date w)" if "w \<in> set [w1, w2, w3, w4, w5]" for w
    using bspec [OF q that] f(2) by simp
  have still: "delay_error w = None" if "w \<in> set [w1, w2, w3, w4, w5]" for w
    using q that by blast
  have drawn: "\<forall>item \<in> set [a, b, c, d, e]. render_error w item = None"
    if "w \<in> set [w1, w2, w3, w4, w5]" for w
    using q that by blast
  have "loop_iteration str_of w1 cfg s = (Inr (s\<lparr>theater_idx := 2 * j, movie_idx := 1\<rparr>), shown cfg [a])"
    by (rule iteration_2_3(1) [OF g f(1) fresh still drawn c]) simp_all
  then have i1: "loop_iteration str_of w1 cfg s = (Inr ?s1, shown cfg [a])" .
  have "loop_iteration str_of w2 cfg ?s1 =
          (Inr (?s1\<lparr>theater_idx := 2 * j + 1, movie_idx := 0\<rparr>), shown cfg [b])"
    by (rule iteration_2_3(2) [where cc = cc and a = a and c = c and d = d and e = e])
       (simp_all add: g f(1) fresh still drawn)
  then have i2: "loop_iteration str_of w2 cfg ?s1 = (Inr ?s2, shown cfg [b])"
    by simp
  have "loop_iteration str_of w3 cfg ?s2 =
          (Inr (?s2\<lparr>theater_idx := 2 * j + 1, movie_idx := 1\<rparr>), shown cfg [c])"
    by (rule iteration_2_3(3) [where cc = cc and a = a and b = b and d = d and e = e])
       (simp_all add: g f(1) fresh still drawn)
  then have i3: "loop_iteration str_of w3 cfg ?s2 = (Inr ?s3, shown cfg [c])"
    by simp
  have "loop_iteration str_of w4 cfg ?s3 =
          (Inr (?s3\<lparr>theater_idx := 2 * j + 1, movie_idx := 2\<rparr>), shown cfg [d])"
    by (rule iteration_2_3(4) [where cc = cc and a = a and b = b and c = c and e = e])
       (simp_all add: g f(1) fresh still drawn)
  then have i4: "loop_iteration str_of w4 cfg ?s3 = (Inr ?s4, shown cfg [d])"
    by simp
  have "loop_iteration str_of w5 cfg ?s4 =
          (Inr (?s4\<lparr>theater_idx := 2 * j + 2, movie_idx := 0\<rparr>), shown cfg [e])"
    by (rule iteration_2_3(5) [where cc = cc and a = a and b = b and c = c and d = d])
       (simp_all add: g f(1) fresh still drawn)
  then have i5: "loop_iteration str_of w5 cfg ?s4 = (Inr ?s5, shown cfg [e])"
    by simp
  show ?thesis
    by (simp add: i1 i2 i3 i4 i5 shown_def)
qed

lemma run_loop_append:
  "run_loop str_of (ws @ ws') cfg s =
     (case run_loop str_of ws cfg s of
        (Inl x, evs) \<Rightarrow> (Inl x, evs)
      | (Inr s', evs) \<Rightarrow>
          (case run_loop str_of ws' cfg s' of (r, evs') \<Rightarrow> (r, evs @ evs')))"
proof (induction ws arbitrary: s)
  case Nil
  show ?case by (simp split: prod.splits)
next
  case (Cons w ws)
  show ?case
  proof (cases "loop_iteration str_of w cfg s")
    case (Pair r evs)
    show ?thesis
    proof (cases r)
      case (Inl x)
      with Pair show ?thesis by simp
    next
      case (Inr s1)
      with Pair Cons.IH [of s1] show ?thesis
        by (simp split: prod.splits sum.splits)
    qed
  qed
qed

lemma five_and_rest:
  "length ws = Suc (Suc (Suc (Suc (Suc n)))) \<Longrightarrow>
   \<exists>w1 w2 w3 w4 w5 rest. ws = [w1, w2, w3, w4, w5] @ rest \<and> length rest = n"
  by (auto simp: length_Suc_conv)

lemma rounds_2_3:
  assumes g: "theater_groups s = [[a, b], [c, d, e]]"
    and f: "load_cached (files s) (cache_path cfg) = PDict cc" "dict_get cc ''date'' = PStr today"
  shows "\<forall>w \<in> set ws. now_date w = today \<and> delay_error w = None
              \<and> (\<forall>item \<in> set [a, b, c, d, e]. render_error w item = None) \<Longrightarrow>
         length ws = 5 * k \<Longrightarrow>
         run_loop str_of ws cfg (s\<lparr>theater_idx := 2 * j, movie_idx := 0\<rparr>) =
           (Inr (s\<lparr>theater_idx := 2 * j + 2 * int k, movie_idx := 0\<rparr>),
            concat (replicate k (shown cfg [a, b, c, d, e])))"
proof (induction k arbitrary: ws j)
  case 0
  then show ?case by simp
next
  case (Suc k)
  from Suc.prems(2) have "length ws = Suc (Suc (Suc (Suc (Suc (5 * k)))))"
    by simp
  from five_and_rest [OF this] obtain w1 w2 w3 w4 w5 rest where
    ws: "ws = [w1, w2, w3, w4, w5] @ rest" and r: "length rest = 5 * k"
    by blast
  from Suc.prems(1) ws have
    q5: "\<forall>w \<in> set [w1, w2, w3, w4, w5]. now_date w = today \<and> delay_error w = None
              \<and> (\<forall>item \<in> set [a, b, c, d, e]. render_error w item = None)"
    and qr: "\<forall>w \<in> set rest. now_date w = today \<and> delay_error w = None
              \<and> (\<forall>item \<in> set [a, b, c, d, e]. render_error w item = None)"
    by auto
  have "run_loop str_of [w1, w2, w3, w4, w5] cfg (s\<lparr>theater_idx := 2 * j, movie_idx := 0\<rparr>) =
          (Inr (s\<lparr>theater_idx := 2 * j, movie_idx := 0\<rparr>\<lparr>theater_idx := 2 * j + 2, movie_idx := 0\<rparr>),
           shown cfg [a, b, c, d, e])"
    using g f q5 by (intro round_2_3 [where cc = cc and today = today]) simp_all
  then have first: "run_loop str_of [w1, w2, w3, w4, w5] cfg (s\<lparr>theater_idx := 2 * j, movie_idx := 0\<rparr>) =
          (Inr (s\<lparr>theater_idx := 2 * (j + 1), movie_idx := 0\<rparr>), shown cfg [a, b, c, d, e])"
    by (simp add: algebra_simps)
  from Suc.IH [OF qr r, of "j + 1"]
  have "run_loop str_of rest cfg (s\<lparr>theater_idx := 2 * (j + 1), movie_idx := 0\<rparr>) =
          (Inr (s\<lparr>theater_idx := 2 * j + 2 * int (Suc k), movie_idx := 0\<rparr>),
           concat (replicate k (shown cfg [a, b, c, d, e])))"
    by (simp add: algebra_simps)
  with first show ?case
    unfolding ws run_loop_append by simp
qed

text \<open>
  C2. With groups of sizes 2 and 3, the cursor at \<open>(0, 0)\<close>, a cache file that is of
  today, so that nothing is refreshed, and nothing raised, six iterations of the loop
  render group 0 item 0, group 0 item 1, group 1 item 0, group 1 item 1, group 1 item 2
  and group 0 item 0 again, each followed by the cycle delay, and leave the cursor at
  \<open>(2, 1)\<close>. Every \<open>k\<close> rounds of five iterations render the five items of the groups, in
  order and each once, \<open>k\<close> times over, and leave the cursor at \<open>(2 k, 0)\<close>, which
  resolves to group 0 item 0.
\<close>

theorem rotation_cycle_of_five:
  assumes "map length (theater_groups s) = [2, 3]"
    and "theater_idx s = 0" and "movie_idx s = 0"
    and "load_cached (files s) (cache_path cfg) = PDict c" and "dict_get c ''date'' = PStr today"
    and "\<forall>w \<in> set ws. now_date w = today \<and> delay_error w = None
           \<and> (\<forall>item \<in> set (concat (theater_groups s)). render_error w item = None)"
  shows "(length ws = 6 \<longrightarrow>
            run_loop str_of ws cfg s =
              (Inr (s\<lparr>theater_idx := 2, movie_idx := 1\<rparr>),
               shown cfg [theater_groups s ! 0 ! 0, theater_groups s ! 0 ! 1,
                          theater_groups s ! 1 ! 0, theater_groups s ! 1 ! 1,
                          theater_groups s ! 1 ! 2, theater_groups s ! 0 ! 0]))
       \<and> (length ws = 5 * k \<longrightarrow>
            run_loop str_of ws cfg s =
              (Inr (s\<lparr>theater_idx := 2 * int k, movie_idx := 0\<rparr>),
               concat (replicate k (shown cfg (concat (theater_groups s))))))
       \<and> length (concat (theater_groups s)) = 5"
proof -
  from assms(1) obtain a b c' d e where g: "theater_groups s = [[a, b], [c', d, e]]"
    by (rule sizes_2_3)
  have s0: "s = s\<lparr>theater_idx := 2 * 0, movie_idx := 0\<rparr>"
    using assms(2,3) by simp
  from assms(6) have q: "\<forall>w \<in> set ws. now_date w = today \<and> delay_error w = None
           \<and> (\<forall>item \<in> set [a, b, c', d, e]. render_error w item = None)"
    by (simp add: g)
  have rounds: "run_loop str_of ws cfg s =
              (Inr (s\<lparr>theater_idx := 2 * int k, movie_idx := 0\<rparr>),
               concat (replicate k (shown cfg (concat (theater_groups s)))))"
    if "length ws = 5 * k"
    using rounds_2_3 [OF g assms(4,5) q that, of str_of 0] s0 by (simp add: g)
  have six: "run_loop str_of ws cfg s =
              (Inr (s\<lparr>theater_idx := 2, movie_idx := 1\<rparr>), shown cfg [a, b, c', d, e, a])"
    if "length ws = 6"
  proof -
    from that have "length ws = Suc (Suc (Suc (Suc (Suc (Suc 0)))))"
      by simp
    from five_and_rest [OF this] obtain w1 w2 w3 w4 w5 rest where
      "ws = [w1, w2, w3, w4, w5] @ rest" "length rest = Suc 0"
      by blast
    then obtain w6 where ws: "ws = [w1, w2, w3, w4, w5] @ [w6]"
      by (cases rest) auto
    from q ws have q5: "\<forall>w \<in> set [w1, w2, w3, w4, w5]. now_date w = today \<and> delay_error w = None
           \<and> (\<forall>item \<in> set [a, b, c', d, e]. render_error w item = None)"
      and q6: "now_date w6 = today" "delay_error w6 = None"
           "\<forall>item \<in> set [a, b, c', d, e]. render_error w6 item = None"
      by auto
    have r: "run_loop str_of [w1, w2, w3, w4, w5] cfg s =
               (Inr (s\<lparr>theater_idx := 2 * 0 + 2, movie_idx := 0\<rparr>), shown cfg [a, b, c', d, e])"
      using g assms(2-5) q5 by (intro round_2_3 [where cc = c and today = today]) simp_all
    let ?s5 = "s\<lparr>theater_idx := 2, movie_idx := 0\<rparr>"
    have "loop_iteration str_of w6 cfg ?s5 =
            (Inr (?s5\<lparr>theater_idx := 2 * 1, movie_idx := 1\<rparr>), shown cfg [a])"
      using g assms(4,5) q6
      by (intro iteration_2_3(1) [where cc = c and b = b and c = c' and d = d and e = e]) simp_all
    with r show ?thesis
      unfolding ws run_loop_append by (simp add: shown_def)
  qed
  from six rounds show ?thesis by (simp add: g)
qed

theorem rotation_cycle_of_five_witness:
  "run_loop example_str (replicate 6 example_quiet) example_config example_rotation
     = (Inr (example_rotation\<lparr>theater_idx := 2, movie_idx := 1\<rparr>),
        shown example_config [PStr ''a'', PStr ''b'', PStr ''c'', PStr ''d'', PStr ''e'', PStr ''a''])
   \<and> run_loop example_str (replicate 10 example_quiet) example_config example_rotation
     = (Inr (example_rotation\<lparr>theater_idx := 4, movie_idx := 0\<rparr>),
        shown example_config [PStr ''a'', PStr ''b'', PStr ''c'', PStr ''d'', PStr ''e'',
                              PStr ''a'', PStr ''b'', PStr ''c'', PStr ''d'', PStr ''e''])"
proof -
  let ?c = "[(''date'', PStr ''2024-05-01''), (''entries'', PList example_cached)]"
  have h1: "map length (theater_groups example_rotation) = [2, 3]"
    "theater_idx example_rotation = 0" "movie_idx example_rotation = 0"
    by (simp_all add: example_rotation_def)
  have h2: "load_cached (files example_rotation) (cache_path example_config) = PDict ?c"
    by (simp add: example_rotation_def example_config_def example_files_def load_cached_def)
  have h3: "dict_get ?c ''date'' = PStr ''2024-05-01''"
    by (simp add: dict_get_def)
  have h4: "\<forall>w \<in> set (replicate n example_quiet).
              now_date w = ''2024-05-01'' \<and> delay_error w = None
              \<and> (\<forall>item \<in> set (concat (theater_groups example_rotation)). render_error w item = None)"
    for n
    by (simp add: example_quiet_def)
  have g: "theater_groups example_rotation =
             [[PStr ''a'', PStr ''b''], [PStr ''c'', PStr ''d'', PStr ''e'']]"
    by (simp add: example_rotation_def)
  from rotation_cycle_of_five [OF h1 h2 h3 h4 [of 6], of example_str 0]
  have six: "run_loop example_str (replicate 6 example_quiet) example_config example_rotation
     = (Inr (example_rotation\<lparr>theater_idx := 2, movie_idx := 1\<rparr>),
        shown example_config [PStr ''a'', PStr ''b'', PStr ''c'', PStr ''d'', PStr ''e'', PStr ''a''])"
    by (simp add: g)
  from rotation_cycle_of_five [OF h1 h2 h3 h4 [of 10], of example_str 2]
  have ten: "run_loop example_str (replicate 10 example_quiet) example_config example_rotation
     = (Inr (example_rotation\<lparr>theater_idx := 4, movie_idx := 0\<rparr>),
        concat (replicate 2 (shown example_config
          [PStr ''a'', PStr ''b'', PStr ''c'', PStr ''d'', PStr ''e''])))"
    by (simp add: g)
  have "concat (replicate 2 (shown example_config
          [PStr ''a'', PStr ''b'', PStr ''c'', PStr ''d'', PStr ''e'']))
        = shown example_config [PStr ''a'', PStr ''b'', PStr ''c'', PStr ''d'', PStr ''e'',
                              PStr ''a'', PStr ''b'', PStr ''c'', PStr ''d'', PStr ''e'']"
    by (simp add: shown_def numeral_2_eq_2)
  with six ten show ?thesis by simp
qed

section \<open>Properties of the Fetch Orchestrator\<close>




text \<open>
  The case that the two above leave: a cached value that is true and not a dictionary. No
  call is made and \<^verbatim>\<open>cached_local.get\<close> raises (source line 258).
\<close>

lemma load_entries_not_a_dictionary:
  assumes "truthy (load_cached d (cache_path cfg))"
    and "\<forall>c. load_cached d (cache_path cfg) \<noteq> PDict c"
  shows "load_entries_for_today str_of fetch cfg d today = ((Inl AttributeError, d), [])"
  using assms
  by (cases "load_cached d (cache_path cfg)") (simp_all add: load_entries_for_today_def)





section \<open>Properties of the Rotation Engine: the display\<close>

lemma display_part_no_groups:
  "theater_groups s = [] \<Longrightarrow> display_part w cfg s evs = (Inl ZeroDivisionError, evs)"
  by (simp add: display_part_def current_item_def)

text \<open>
  C3. In a loop state whose current item is resolved, an exception (a subclass of
  \<^verbatim>\<open>Exception\<close>) raised by the rendering, or by the sleep of the cycle delay after a
  rendering that succeeded, is caught: the message is printed, \<^verbatim>\<open>time.sleep(5)\<close> is
  called, and the loop goes on with the state it had, cursor included, unless that sleep
  is interrupted. An exception leaves the display part of the iteration only when it is
  \<^verbatim>\<open>KeyboardInterrupt\<close>.
\<close>

theorem display_exceptions_are_contained:
  "current_item (theater_groups s) (theater_idx s) (movie_idx s) = Inr (tn, mn, item) \<Longrightarrow>
   (is_Exception x \<and> render_error w item = Some x \<longrightarrow>
      display_part w cfg s evs =
        (if backoff_interrupt w then Inl KeyboardInterrupt else Inr s,
         evs @ [Render item, Print (ErrorDisplaying x), Sleep (PInt 5)]))
   \<and> (is_Exception x \<and> render_error w item = None \<and> delay_error w = Some x \<longrightarrow>
      display_part w cfg s evs =
        (if backoff_interrupt w then Inl KeyboardInterrupt else Inr s,
         evs @ [Render item, Sleep (cycle_delay cfg), Print (ErrorDisplaying x), Sleep (PInt 5)]))
   \<and> (fst (display_part w cfg s evs) = Inl y \<longrightarrow> y = KeyboardInterrupt)"
proof (intro conjI impI)
  assume c: "current_item (theater_groups s) (theater_idx s) (movie_idx s) = Inr (tn, mn, item)"
  {
    assume "is_Exception x \<and> render_error w item = Some x"
    with c show "display_part w cfg s evs =
        (if backoff_interrupt w then Inl KeyboardInterrupt else Inr s,
         evs @ [Render item, Print (ErrorDisplaying x), Sleep (PInt 5)])"
      by (simp add: display_part_def display_failed_def backoff_def)
  next
    assume "is_Exception x \<and> render_error w item = None \<and> delay_error w = Some x"
    with c show "display_part w cfg s evs =
        (if backoff_interrupt w then Inl KeyboardInterrupt else Inr s,
         evs @ [Render item, Sleep (cycle_delay cfg), Print (ErrorDisplaying x), Sleep (PInt 5)])"
      by (simp add: display_part_def display_failed_def backoff_def)
  next
    assume "fst (display_part w cfg s evs) = Inl y"
    with c show "y = KeyboardInterrupt"
      by (cases y)
         (auto simp: display_part_def display_failed_def backoff_def
               split: option.splits if_splits prod.splits)
  }
qed

theorem display_exceptions_are_contained_witness:
  "current_item (theater_groups example_state) (theater_idx example_state) (movie_idx example_state)
     = Inr (0, 0, example_item)
   \<and> display_part example_env example_config example_state []
     = (Inr example_state,
        [Render example_item, Print (ErrorDisplaying (OtherError ''OSError'')), Sleep (PInt 5)])
   \<and> loop_iteration example_str example_env example_config example_state
     = (Inr example_state,
        [Render example_item, Print (ErrorDisplaying (OtherError ''OSError'')), Sleep (PInt 5)])
   \<and> display_part (example_env\<lparr>render_error := (\<lambda>item. None), delay_error := Some TypeError\<rparr>)
        example_config example_state []
     = (Inr example_state,
        [Render example_item, Sleep (PInt 10), Print (ErrorDisplaying TypeError), Sleep (PInt 5)])
   \<and> fst (display_part (example_env\<lparr>render_error := (\<lambda>item. Some KeyboardInterrupt)\<rparr>)
             example_config example_state [])
     = Inl KeyboardInterrupt"
proof -
  let ?slow = "example_env\<lparr>render_error := (\<lambda>item. None), delay_error := Some TypeError\<rparr>"
  let ?stop = "example_env\<lparr>render_error := (\<lambda>item. Some KeyboardInterrupt)\<rparr>"
  have c: "current_item (theater_groups example_state) (theater_idx example_state)
             (movie_idx example_state) = Inr (0, 0, example_item)"
    by (simp add: example_state_def current_item_def)
  have r: "is_Exception (OtherError ''OSError'')
         \<and> render_error example_env example_item = Some (OtherError ''OSError'')"
    by (simp add: example_env_def)
  have b: "\<not> backoff_interrupt example_env"
    by (simp add: example_env_def)
  from display_exceptions_are_contained
         [OF c, of "OtherError ''OSError''" example_env example_config "[]"] r b
  have d: "display_part example_env example_config example_state []
     = (Inr example_state,
        [Render example_item, Print (ErrorDisplaying (OtherError ''OSError'')), Sleep (PInt 5)])"
    by simp
  have r2: "is_Exception TypeError \<and> render_error ?slow example_item = None
         \<and> delay_error ?slow = Some TypeError"
    by simp
  have b2: "\<not> backoff_interrupt ?slow" "cycle_delay example_config = PInt 10"
    by (simp_all add: example_env_def example_config_def)
  from display_exceptions_are_contained [OF c, of TypeError ?slow example_config "[]"] r2 b2
  have d2: "display_part ?slow example_config example_state []
     = (Inr example_state,
        [Render example_item, Sleep (PInt 10), Print (ErrorDisplaying TypeError), Sleep (PInt 5)])"
    by simp
  have i: "fst (display_part ?stop example_config example_state []) = Inl KeyboardInterrupt"
    using c by (simp add: display_part_def display_failed_def)
  from display_exceptions_are_contained
         [OF c, of _ ?stop example_config "[]" KeyboardInterrupt] i
  have d3: "KeyboardInterrupt = KeyboardInterrupt"
    by blast
  have "load_cached (files example_state) (cache_path example_config)
          = PDict [(''date'', PStr ''2024-05-01''), (''entries'', PList example_cached)]"
    by (simp add: example_state_def example_config_def example_files_def load_cached_def)
  moreover have "dict_get [(''date'', PStr ''2024-05-01''), (''entries'', PList example_cached)] ''date''
          = PStr (now_date example_env)"
    by (simp add: dict_get_def example_env_def)
  ultimately have "loop_iteration example_str example_env example_config example_state
          = display_part example_env example_config example_state []"
    by (rule loop_iteration_fresh)
  with c d d2 i d3 show ?thesis by simp
qed

text \<open>
  What the theorem above leaves out. When a refresh returns no group, the empty list is
  stored in \<^verbatim>\<open>theater_groups\<close> and the iteration ends with the backoff; the cache file
  then holds today's date, so the next iteration does not refresh, and line 317 divides
  by the length of the empty list outside every \<^verbatim>\<open>try\<close>.
\<close>

lemma refresh_without_movies:
  assumes "load_entries_for_today str_of (fetch_showtimes w) cfg (files s) (reload_date w)
             = ((Inr (es, d), fs'), evs)"
    and "group_movies_by_theater (tz cfg) es d = Inr []"
    and "\<not> backoff_interrupt w"
  shows "refresh_part str_of w cfg s =
           (Inr (s\<lparr>files := fs', entries := es, cache_date := d,
                   theater_groups := [], theater_idx := 0, movie_idx := 0\<rparr>),
            evs @ [Print NoMoviesAfterRefresh, Sleep (PInt 5)])"
  using assms by (simp add: refresh_part_def backoff_def)

lemma no_groups_then_division_by_zero:
  assumes "theater_groups s = []"
    and "load_cached (files s) (cache_path cfg) = PDict c"
    and "dict_get c ''date'' = PStr (now_date w)"
  shows "loop_iteration str_of w cfg s = (Inl ZeroDivisionError, [])"
  using assms by (simp add: loop_iteration_fresh display_part_no_groups)

end
